theory Spec2Isabelle
  imports Main "HOL-Library.Word"
begin

unbundle bit_operations_syntax

section \<open>Values of the wallet's vault orchestration layer\<close>

text \<open>
  A public key is kept in its base58 form, the form in which the source writes its
  constants (\<open>new PublicKey("SQDS4ep...")\<close>) and in which it compares owners
  (\<open>a.toBase58() === b.toBase58()\<close>) and deduplicates signers.
\<close>

datatype PublicKey = PublicKey (toBase58: string)

datatype Keypair = Keypair (publicKey: PublicKey) (secretKey: "8 word list")

definition SQUADS_PROGRAM_ID :: PublicKey where
  "SQUADS_PROGRAM_ID = PublicKey ''SQDS4ep65T869zMMBKyuUq6aD6EgTu8psMjkvj52pCf''"

definition programTreasury :: PublicKey where
  "programTreasury = PublicKey ''5DH2e3cJmFpyi6mk65EGFediunm4ui6BiKNUNrhWtD1b''"

definition SystemProgram_programId :: PublicKey where
  "SystemProgram_programId = PublicKey ''11111111111111111111111111111111''"

record AccountInfo =
  owner :: PublicKey
  account_data :: "8 word list"

datatype Commitment = Processed | Confirmed | Finalized

text \<open>
  What a JavaScript \<open>throw\<close> carries. \<open>Error m\<close> is \<open>new Error(m)\<close> built by the
  repository's own code; \<open>External\<close> is an error object thrown by a library or by the
  RPC node, with its message and its \<open>JSON.stringify\<close> form (the libraries throw
  \<open>Error\<close> objects only). \<open>JSON.stringify\<close> of a plain \<open>Error\<close> is \<open>{}\<close>.
\<close>

datatype thrown = LibError string string

datatype error = Error string | External thrown

fun message :: "error \<Rightarrow> string" where
  "message (Error m) = m"
| "message (External (LibError m j)) = m"

fun stringify :: "error \<Rightarrow> string" where
  "stringify (Error m) = ''{}''"
| "stringify (External (LibError m j)) = j"

fun instanceofError :: "error \<Rightarrow> bool" where
  "instanceofError (Error m) = True"
| "instanceofError (External (LibError m j)) = True"

text \<open>\<open>s.toLowerCase()\<close> on the ASCII letters.\<close>

definition toLowerChar :: "char \<Rightarrow> char" where
  "toLowerChar c =
     (if (65::nat) \<le> of_char c \<and> of_char c \<le> (90::nat) then char_of (of_char c + (32::nat)) else c)"

definition toLowerCase :: "string \<Rightarrow> string" where
  "toLowerCase s = map toLowerChar s"

text \<open>\<open>s.includes(sub)\<close> of JavaScript strings.\<close>

fun str_includes :: "string \<Rightarrow> string \<Rightarrow> bool" where
  "str_includes [] sub = (sub = [])"
| "str_includes (c # cs) sub = (take (length sub) (c # cs) = sub \<or> str_includes cs sub)"

subsection \<open>Instructions and transactions\<close>

datatype Permission = Initiate | Vote | Execute

record Member =
  member_key :: PublicKey
  permissions :: "Permission list"

definition Permissions_all :: "Permission list" where
  "Permissions_all = [Initiate, Vote, Execute]"

record AccountMeta =
  pubkey :: PublicKey
  isSigner :: bool
  isWritable :: bool

datatype InstructionData = FromBase64 string | TransferLamports int

record TransactionInstruction =
  programId :: PublicKey
  keys :: "AccountMeta list"
  ix_data :: InstructionData

record TransactionMessage =
  payerKey :: PublicKey
  recentBlockhash :: string
  instructions :: "TransactionInstruction list"

record MultisigCreateV2 =
  mc_programConfig :: PublicKey
  mc_treasury :: PublicKey
  mc_multisig :: PublicKey
  mc_createKey :: PublicKey
  mc_creator :: PublicKey
  mc_systemProgram :: PublicKey
  mc_threshold :: int
  mc_members :: "Member list"
  mc_timeLock :: nat
  mc_payerKey :: PublicKey
  mc_recentBlockhash :: string
  mc_signers :: "PublicKey list"

record VaultTransactionCreate =
  vt_blockhash :: string
  vt_feePayer :: PublicKey
  vt_multisigPda :: PublicKey
  vt_transactionIndex :: int
  vt_creator :: PublicKey
  vt_vaultIndex :: nat
  vt_ephemeralSigners :: nat
  vt_transactionMessage :: TransactionMessage
  vt_programId :: PublicKey
  vt_signers :: "PublicKey list"

record ProposalCreate =
  pc_blockhash :: string
  pc_feePayer :: PublicKey
  pc_multisigPda :: PublicKey
  pc_transactionIndex :: int
  pc_creator :: PublicKey
  pc_programId :: PublicKey
  pc_signers :: "PublicKey list"

text \<open>
  The transactions this layer submits: the three Squads instructions it builds itself,
  and a transaction deserialized from a base64 payload of the routing service and
  signed by the wallet.
\<close>

datatype Transaction =
    MultisigCreateTx MultisigCreateV2
  | VaultTransactionCreateTx VaultTransactionCreate
  | ProposalCreateTx ProposalCreate
  | DeserializedTx string "PublicKey list"

record SignatureStatus =
  confirmationStatus :: "string option"
  status_err :: "string option"

text \<open>
  An HTTP response of a relay: \<open>response.ok\<close>, and \<open>await response.json()\<close>, which
  throws or gives a body whose \<open>result\<close> field is truthy or not.
\<close>

record Response =
  response_ok :: bool
  response_json :: "thrown + bool"

text \<open>The records of \<open>swap.ts\<close> and the result of \<open>createSquad\<close>.\<close>

record SwapInstructionAccount =
  sa_pubkey :: string
  sa_isSigner :: bool
  sa_isWritable :: bool

record SwapInstructionData =
  si_programId :: string
  si_accounts :: "SwapInstructionAccount list"
  si_data :: string

record SwapInstructionsResponse =
  computeBudgetInstructions :: "SwapInstructionData list"
  setupInstructions :: "SwapInstructionData list"
  swapInstruction :: SwapInstructionData
  cleanupInstruction :: "SwapInstructionData option"
  otherInstructions :: "SwapInstructionData list"
  addressLookupTableAddresses :: "string list"

record SwapTransaction =
  swap_transaction :: string
  lastValidBlockHeight :: nat
  prioritizationFeeLamports :: nat

record SwapResult =
  success :: bool
  swap_signature :: "string option"
  swap_error :: "string option"
  errorCode :: "string option"

record SquadResult =
  squad_signature :: string
  squad_multisigPda :: PublicKey
  squad_vaultPda :: PublicKey

section \<open>The ledger connection and the JavaScript runtime\<close>

text \<open>
  Every awaited call is an operation on a world \<open>'w\<close>: it answers and leaves the world
  changed. The operations are those of \<open>Connection\<close> of the Solana client library, with
  \<open>fetch\<close>, \<open>setTimeout\<close> and \<open>Date.now\<close> of the runtime; the theorems hold for every
  world and every behaviour of these operations unless they say otherwise. A
  transaction error \<open>value.err\<close> is kept as its \<open>JSON.stringify\<close> form, \<open>None\<close> for
  \<open>null\<close>. \<open>confirmTransactionWithin\<close> is the race of a confirmation against a timer:
  \<open>None\<close> when the timer fires first.
\<close>

record 'w io =
  getBalance :: "PublicKey \<Rightarrow> 'w \<Rightarrow> (thrown + nat) \<times> 'w"
  getAccountInfo :: "PublicKey \<Rightarrow> Commitment option \<Rightarrow> 'w \<Rightarrow> (thrown + AccountInfo option) \<times> 'w"
  getLatestBlockhash :: "'w \<Rightarrow> (thrown + string) \<times> 'w"
  sendTransaction :: "Transaction \<Rightarrow> bool \<Rightarrow> 'w \<Rightarrow> (thrown + string) \<times> 'w"
  sendRawTransaction :: "Transaction \<Rightarrow> bool \<Rightarrow> 'w \<Rightarrow> (thrown + string) \<times> 'w"
  confirmTransaction :: "string \<Rightarrow> 'w \<Rightarrow> (thrown + string option) \<times> 'w"
  confirmTransactionWithin :: "nat \<Rightarrow> string \<Rightarrow> 'w \<Rightarrow> (thrown + string option) option \<times> 'w"
  getSignatureStatus :: "string \<Rightarrow> 'w \<Rightarrow> (thrown + SignatureStatus option) \<times> 'w"
  fetch :: "string \<Rightarrow> string \<Rightarrow> 'w \<Rightarrow> (thrown + Response) \<times> 'w"
  setTimeout :: "nat \<Rightarrow> 'w \<Rightarrow> 'w"
  dateNow :: "'w \<Rightarrow> int"

text \<open>
  The pure functions of the Squads and Solana libraries that the source calls: key
  bytes, key derivation from a seed, the program-derived addresses, the decoder of a
  multisig account (its \<open>transactionIndex\<close>), the base58 key parser, and the
  runtime's rendering of \<open>lamports / 1e9\<close> in a template string. A transaction of the
  Squads program is kept as the arguments its builder is called with and the keys that
  sign it; the compiled message, the signatures and the wire bytes are functions of
  these, so the builder (\<open>multisig.transactions.vaultTransactionCreate\<close>,
  \<open>multisig.transactions.proposalCreate\<close>), \<open>tx.sign\<close> and \<open>tx.serialize\<close> are kept as
  \<open>buildTransaction\<close>, \<open>signTransaction\<close> and \<open>serializeTransaction\<close>: each returns, or throws
  (a message that does not compile, a transaction larger than a packet).
  \<open>transactionPda\<close> is the vault-transaction address of an index that fits 64 bits, and
  \<open>u64RangeError\<close> what the byte writer throws for one that does not.
\<close>

record lib =
  toBytes :: "PublicKey \<Rightarrow> 8 word list"
  fromSeed :: "8 word list \<Rightarrow> Keypair"
  getMultisigPda :: "PublicKey \<Rightarrow> PublicKey \<Rightarrow> PublicKey"
  getVaultPda :: "PublicKey \<Rightarrow> nat \<Rightarrow> PublicKey \<Rightarrow> PublicKey"
  transactionPda :: "PublicKey \<Rightarrow> int \<Rightarrow> PublicKey \<Rightarrow> PublicKey"
  u64RangeError :: "int \<Rightarrow> thrown"
  getProgramConfigPda :: "PublicKey \<Rightarrow> PublicKey"
  multisigFromAccountInfo :: "AccountInfo \<Rightarrow> thrown + int"
  newPublicKey :: "string \<Rightarrow> thrown + PublicKey"
  formatSol :: "int \<Rightarrow> string"
  deserialize :: "string \<Rightarrow> thrown + string"
  sign :: "string \<Rightarrow> Keypair \<Rightarrow> thrown + string"
  buildTransaction :: "Transaction \<Rightarrow> thrown + unit"
  signTransaction :: "Transaction \<Rightarrow> Keypair list \<Rightarrow> thrown + unit"
  serializeTransaction :: "Transaction \<Rightarrow> thrown + unit"

text \<open>
  \<open>multisig.getTransactionPda\<close> writes the index as an unsigned 64-bit integer before it
  derives the address: for an index outside \<open>0, ..., 2^64 - 1\<close> it throws the range error
  of the byte writer, and derives no address.
\<close>

definition getTransactionPda :: "lib \<Rightarrow> PublicKey \<Rightarrow> int \<Rightarrow> PublicKey \<Rightarrow> thrown + PublicKey" where
  "getTransactionPda lib multisigPda index program =
     (if 0 \<le> index \<and> index < 2 ^ 64 then Inr (transactionPda lib multisigPda index program)
      else Inl (u64RangeError lib index))"

text \<open>The calls a run makes, in order, each with the answer it got.\<close>

datatype event =
    GetBalance PublicKey "thrown + nat"
  | GetAccountInfo PublicKey "Commitment option" "thrown + AccountInfo option"
  | GetLatestBlockhash "thrown + string"
  | SendTransaction Transaction bool "thrown + string"
  | SendRawTransaction Transaction bool "thrown + string"
  | ConfirmTransaction string "thrown + string option"
  | ConfirmTransactionWithin nat string "(thrown + string option) option"
  | GetSignatureStatus string "thrown + SignatureStatus option"
  | Fetch string string "thrown + Response"
  | SetTimeout nat

type_synonym 'w state = "'w \<times> event list"

type_synonym ('w, 'a) proc = "'w state \<Rightarrow> (error + 'a) \<times> 'w state"

definition await :: "('w \<Rightarrow> (thrown + 'a) \<times> 'w) \<Rightarrow> (thrown + 'a \<Rightarrow> event) \<Rightarrow> ('w, 'a) proc" where
  "await f ev s = (case f (fst s) of (r, w') \<Rightarrow> (map_sum External id r, (w', snd s @ [ev r])))"

definition conn_getBalance :: "'w io \<Rightarrow> PublicKey \<Rightarrow> ('w, nat) proc" where
  "conn_getBalance io a = await (getBalance io a) (GetBalance a)"

definition conn_getAccountInfo :: "'w io \<Rightarrow> PublicKey \<Rightarrow> Commitment option \<Rightarrow> ('w, AccountInfo option) proc" where
  "conn_getAccountInfo io a c = await (getAccountInfo io a c) (GetAccountInfo a c)"

definition conn_getLatestBlockhash :: "'w io \<Rightarrow> ('w, string) proc" where
  "conn_getLatestBlockhash io = await (getLatestBlockhash io) GetLatestBlockhash"

definition conn_sendTransaction :: "'w io \<Rightarrow> Transaction \<Rightarrow> bool \<Rightarrow> ('w, string) proc" where
  "conn_sendTransaction io tx skipPreflight =
     await (sendTransaction io tx skipPreflight) (SendTransaction tx skipPreflight)"

definition conn_sendRawTransaction :: "'w io \<Rightarrow> Transaction \<Rightarrow> bool \<Rightarrow> ('w, string) proc" where
  "conn_sendRawTransaction io tx skipPreflight =
     await (sendRawTransaction io tx skipPreflight) (SendRawTransaction tx skipPreflight)"

definition conn_confirmTransaction :: "'w io \<Rightarrow> string \<Rightarrow> ('w, string option) proc" where
  "conn_confirmTransaction io sig = await (confirmTransaction io sig) (ConfirmTransaction sig)"

definition conn_confirmTransactionWithin :: "'w io \<Rightarrow> nat \<Rightarrow> string \<Rightarrow> 'w state \<Rightarrow> (thrown + string option) option \<times> 'w state" where
  "conn_confirmTransactionWithin io ms sig s =
     (case confirmTransactionWithin io ms sig (fst s) of
        (r, w') \<Rightarrow> (r, (w', snd s @ [ConfirmTransactionWithin ms sig r])))"

definition conn_fetch :: "'w io \<Rightarrow> string \<Rightarrow> string \<Rightarrow> ('w, Response) proc" where
  "conn_fetch io url body = await (fetch io url body) (Fetch url body)"

definition conn_getSignatureStatus :: "'w io \<Rightarrow> string \<Rightarrow> ('w, SignatureStatus option) proc" where
  "conn_getSignatureStatus io sig = await (getSignatureStatus io sig) (GetSignatureStatus sig)"

definition sleep :: "'w io \<Rightarrow> nat \<Rightarrow> 'w state \<Rightarrow> 'w state" where
  "sleep io ms s = (setTimeout io ms (fst s), snd s @ [SetTimeout ms])"

definition andThen :: "('w, 'a) proc \<Rightarrow> ('a \<Rightarrow> ('w, 'b) proc) \<Rightarrow> ('w, 'b) proc" where
  "andThen m f s = (case m s of (Inl e, s') \<Rightarrow> (Inl e, s') | (Inr x, s') \<Rightarrow> f x s')"

definition tryCatch :: "('w, 'a) proc \<Rightarrow> (error \<Rightarrow> ('w, 'a) proc) \<Rightarrow> ('w, 'a) proc" where
  "tryCatch m h s = (case m s of (Inl e, s') \<Rightarrow> h e s' | (Inr x, s') \<Rightarrow> (Inr x, s'))"

definition return :: "'a \<Rightarrow> ('w, 'a) proc" where
  "return x s = (Inr x, s)"

definition throw :: "error \<Rightarrow> ('w, 'a) proc" where
  "throw e s = (Inl e, s)"

definition pure :: "thrown + 'a \<Rightarrow> ('w, 'a) proc" where
  "pure r s = (map_sum External id r, s)"

section \<open>Transaction Index Allocator (\<open>getNextTransactionIndex\<close>)\<close>

function probeTransactionIndex :: "'w io \<Rightarrow> lib \<Rightarrow> PublicKey \<Rightarrow> int \<Rightarrow> nat \<Rightarrow> ('w, int) proc" where
  "probeTransactionIndex io lib multisigPda nextIndex offset s =
     (if offset < 10 then
        (let testIndex = nextIndex + int offset
         in case getTransactionPda lib multisigPda testIndex SQUADS_PROGRAM_ID of
              Inl e \<Rightarrow> (Inl (External e), s)
            | Inr vaultTransactionPda \<Rightarrow>
                (case conn_getAccountInfo io vaultTransactionPda None s of
                   (Inl e, s') \<Rightarrow> (Inl e, s')
                 | (Inr None, s') \<Rightarrow> (Inr testIndex, s')
                 | (Inr (Some txAccount), s') \<Rightarrow>
                     probeTransactionIndex io lib multisigPda nextIndex (Suc offset) s'))
      else (Inl (Error ''Could not find free transaction index after 10 attempts''), s))"
  by pat_completeness auto
termination
  by (relation "measure (\<lambda>(io, lib, multisigPda, nextIndex, offset, s). 10 - offset)") auto

definition getNextTransactionIndex :: "'w io \<Rightarrow> lib \<Rightarrow> PublicKey \<Rightarrow> ('w, int) proc" where
  "getNextTransactionIndex io lib multisigPda =
     andThen (conn_getAccountInfo io multisigPda (Some Confirmed)) (\<lambda>multisigInfo.
       case multisigInfo of
         None \<Rightarrow> throw (Error ''Multisig account not found'')
       | Some info \<Rightarrow>
           andThen (pure (multisigFromAccountInfo lib info)) (\<lambda>currentIndex.
             let nextIndex = currentIndex + 1
             in probeTransactionIndex io lib multisigPda nextIndex 0))"

section \<open>Multisig Provisioner (\<open>createSquad\<close>)\<close>

definition MAX_ATTEMPTS :: nat where
  "MAX_ATTEMPTS = 10"

text \<open>
  The create key of attempt \<open>i\<close>: \<open>seed = creator.publicKey.toBytes(); seed[i % 32] ^= 0xFF\<close>.
  \<open>toBytes\<close> gives a fresh array at every call, so each attempt starts from the owner's
  bytes. A write outside a typed array is dropped, as a list update out of range is.
\<close>

definition createKeySeed :: "lib \<Rightarrow> Keypair \<Rightarrow> nat \<Rightarrow> 8 word list" where
  "createKeySeed lib creator i =
     (let seed = toBytes lib (publicKey creator)
      in seed[i mod 32 := seed ! (i mod 32) XOR 0xFF])"

definition createKeyAt :: "lib \<Rightarrow> Keypair \<Rightarrow> nat \<Rightarrow> Keypair" where
  "createKeyAt lib creator i = fromSeed lib (createKeySeed lib creator i)"

definition multisigPdaAt :: "lib \<Rightarrow> Keypair \<Rightarrow> nat \<Rightarrow> PublicKey" where
  "multisigPdaAt lib creator i =
     getMultisigPda lib (publicKey (createKeyAt lib creator i)) SQUADS_PROGRAM_ID"

definition vaultPdaAt :: "lib \<Rightarrow> Keypair \<Rightarrow> nat \<Rightarrow> PublicKey" where
  "vaultPdaAt lib creator i = getVaultPda lib (multisigPdaAt lib creator i) 0 SQUADS_PROGRAM_ID"

definition ownedBySquads :: "AccountInfo option \<Rightarrow> bool" where
  "ownedBySquads info =
     (case info of None \<Rightarrow> False
      | Some a \<Rightarrow> toBase58 (owner a) = toBase58 SQUADS_PROGRAM_ID)"

text \<open>The visibility poll after a confirmed creation: \<open>verifyRetries\<close> reads, one second apart.\<close>

fun verifyVisible :: "'w io \<Rightarrow> PublicKey \<Rightarrow> nat \<Rightarrow> ('w, unit) proc" where
  "verifyVisible io multisigPda 0 s = (Inr (), s)"
| "verifyVisible io multisigPda (Suc verifyRetries) s =
     (case conn_getAccountInfo io multisigPda (Some Confirmed) s of
        (Inl e, s') \<Rightarrow> (Inl e, s')
      | (Inr (Some info), s') \<Rightarrow> (Inr (), s')
      | (Inr None, s') \<Rightarrow> verifyVisible io multisigPda verifyRetries (sleep io 1000 s'))"

text \<open>The ownership poll of the 6014 path: the value of \<open>verified\<close> after at most \<open>retries\<close> reads.\<close>

fun verifyOwnership :: "'w io \<Rightarrow> PublicKey \<Rightarrow> nat \<Rightarrow> ('w, bool) proc" where
  "verifyOwnership io multisigPda 0 s = (Inr False, s)"
| "verifyOwnership io multisigPda (Suc retries) s =
     (case conn_getAccountInfo io multisigPda (Some Confirmed) s of
        (Inl e, s') \<Rightarrow> (Inl e, s')
      | (Inr check, s') \<Rightarrow>
          (if ownedBySquads check then (Inr True, s')
           else verifyOwnership io multisigPda retries (sleep io 1000 s')))"

definition multisigCreateTx :: "lib \<Rightarrow> Keypair \<Rightarrow> PublicKey \<Rightarrow> int \<Rightarrow> nat \<Rightarrow> string \<Rightarrow> Transaction" where
  "multisigCreateTx lib creator member2 threshold i blockhash =
     (let createKey = createKeyAt lib creator i;
          members = [\<lparr>member_key = publicKey creator, permissions = Permissions_all\<rparr>,
                     \<lparr>member_key = member2, permissions = [Vote, Initiate]\<rparr>]
      in MultisigCreateTx
           \<lparr>mc_programConfig = getProgramConfigPda lib SQUADS_PROGRAM_ID,
            mc_treasury = programTreasury,
            mc_multisig = multisigPdaAt lib creator i,
            mc_createKey = publicKey createKey,
            mc_creator = publicKey creator,
            mc_systemProgram = SystemProgram_programId,
            mc_threshold = threshold,
            mc_members = members,
            mc_timeLock = 0,
            mc_payerKey = publicKey creator,
            mc_recentBlockhash = blockhash,
            mc_signers = [publicKey creator, publicKey createKey]\<rparr>)"

text \<open>The body of the \<open>try\<close> of attempt \<open>i\<close>.\<close>

definition tryCreate :: "'w io \<Rightarrow> lib \<Rightarrow> Keypair \<Rightarrow> PublicKey \<Rightarrow> int \<Rightarrow> nat \<Rightarrow> ('w, SquadResult) proc" where
  "tryCreate io lib creator member2 threshold i =
     andThen (conn_getLatestBlockhash io) (\<lambda>latestBlockhash.
     andThen (conn_sendTransaction io (multisigCreateTx lib creator member2 threshold i latestBlockhash) False)
       (\<lambda>signature.
     andThen (conn_confirmTransaction io signature) (\<lambda>confirmation_err.
       case confirmation_err of
         Some err \<Rightarrow> throw (Error (''Creation Transaction Failed on-chain: '' @ err))
       | None \<Rightarrow>
           andThen (verifyVisible io (multisigPdaAt lib creator i) 10) (\<lambda>_.
             return \<lparr>squad_signature = signature,
                     squad_multisigPda = multisigPdaAt lib creator i,
                     squad_vaultPda = vaultPdaAt lib creator i\<rparr>))))"

text \<open>
  How one pass of the loop body ends: a \<open>return\<close>; the end of the body with no branch
  taken; a \<open>continue\<close> from the \<open>catch\<close>, which has stored the error in \<open>lastError\<close>; or
  an exception that leaves \<open>createSquad\<close> (a read outside the \<open>try\<close>).
\<close>

datatype outcome = Returned SquadResult | Skipped | Caught error | Raised error

text \<open>The \<open>catch\<close> of attempt \<open>i\<close>.\<close>

definition catchCreate :: "'w io \<Rightarrow> lib \<Rightarrow> Keypair \<Rightarrow> nat \<Rightarrow> error \<Rightarrow> 'w state \<Rightarrow> outcome \<times> 'w state" where
  "catchCreate io lib creator i e s =
     (let errMsg = message e @ stringify e
      in if str_includes errMsg ''6014'' \<or> str_includes errMsg ''already in use'' then
           (case verifyOwnership io (multisigPdaAt lib creator i) 5 s of
              (Inl e', s') \<Rightarrow> (Raised e', s')
            | (Inr verified, s') \<Rightarrow>
                (if verified then
                   (Returned \<lparr>squad_signature = ''RECOVERED_6014'',
                              squad_multisigPda = multisigPdaAt lib creator i,
                              squad_vaultPda = vaultPdaAt lib creator i\<rparr>, s')
                 else (Caught e, s')))
         else (Caught e, s))"

definition createSquadAttempt ::
    "'w io \<Rightarrow> lib \<Rightarrow> Keypair \<Rightarrow> PublicKey \<Rightarrow> int \<Rightarrow> nat \<Rightarrow> 'w state \<Rightarrow> outcome \<times> 'w state" where
  "createSquadAttempt io lib creator member2 threshold i s =
     (case conn_getAccountInfo io (multisigPdaAt lib creator i) None s of
        (Inl e, s') \<Rightarrow> (Raised e, s')
      | (Inr existingInfo, s') \<Rightarrow>
          (if ownedBySquads existingInfo then
             (Returned \<lparr>squad_signature = ''RECOVERED'',
                        squad_multisigPda = multisigPdaAt lib creator i,
                        squad_vaultPda = vaultPdaAt lib creator i\<rparr>, s')
           else if existingInfo = None then
             (case tryCreate io lib creator member2 threshold i s' of
                (Inr r, s'') \<Rightarrow> (Returned r, s'')
              | (Inl e, s'') \<Rightarrow> catchCreate io lib creator i e s'')
           else (Skipped, s')))"

function createSquadLoop ::
    "'w io \<Rightarrow> lib \<Rightarrow> Keypair \<Rightarrow> PublicKey \<Rightarrow> int \<Rightarrow> nat \<Rightarrow> error option \<Rightarrow> ('w, SquadResult) proc" where
  "createSquadLoop io lib creator member2 threshold i lastError s =
     (if i < MAX_ATTEMPTS then
        (case createSquadAttempt io lib creator member2 threshold i s of
           (Returned r, s') \<Rightarrow> (Inr r, s')
         | (Skipped, s') \<Rightarrow> createSquadLoop io lib creator member2 threshold (Suc i) lastError s'
         | (Caught e, s') \<Rightarrow> createSquadLoop io lib creator member2 threshold (Suc i) (Some e) s'
         | (Raised e, s') \<Rightarrow> (Inl e, s'))
      else
        (Inl (case lastError of
                Some e \<Rightarrow> e
              | None \<Rightarrow> Error ''Failed to find a valid Vault slot after multiple attempts.''), s))"
  by pat_completeness auto
termination
  by (relation "measure (\<lambda>(io, lib, creator, member2, threshold, i, lastError, s). MAX_ATTEMPTS - i)") auto

text \<open>\<open>0.01 * 1e9\<close> is the double \<open>10000000\<close>.\<close>

definition createSquad :: "'w io \<Rightarrow> lib \<Rightarrow> Keypair \<Rightarrow> PublicKey \<Rightarrow> int \<Rightarrow> ('w, SquadResult) proc" where
  "createSquad io lib creator member2 threshold =
     andThen (conn_getBalance io (publicKey creator)) (\<lambda>balance.
       if balance < 10000000 then
         throw (Error (''Insufficient funds. You have '' @ formatSol lib (int balance)
                       @ '' SOL, but need ~0.01 SOL for network fees and rent.''))
       else createSquadLoop io lib creator member2 threshold 0 None)"

section \<open>Vault Transaction Builder (\<open>createTransferProposal\<close>, \<open>createSwapProposal\<close>)\<close>

text \<open>The safety check both builders start with: up to \<open>retries\<close> reads of the multisig, two seconds apart.\<close>

fun waitForMultisig :: "'w io \<Rightarrow> PublicKey \<Rightarrow> nat \<Rightarrow> ('w, unit) proc" where
  "waitForMultisig io multisigPda 0 s = (Inr (), s)"
| "waitForMultisig io multisigPda (Suc retries) s =
     (case conn_getAccountInfo io multisigPda (Some Confirmed) s of
        (Inl e, s') \<Rightarrow> (Inl e, s')
      | (Inr (Some info), s') \<Rightarrow> (Inr (), s')
      | (Inr None, s') \<Rightarrow> waitForMultisig io multisigPda retries (sleep io 2000 s'))"

definition SystemProgram_transfer :: "PublicKey \<Rightarrow> PublicKey \<Rightarrow> int \<Rightarrow> TransactionInstruction" where
  "SystemProgram_transfer fromPubkey toPubkey lamports =
     \<lparr>programId = SystemProgram_programId,
      keys = [\<lparr>pubkey = fromPubkey, isSigner = True, isWritable = True\<rparr>,
              \<lparr>pubkey = toPubkey, isSigner = False, isWritable = True\<rparr>],
      ix_data = TransferLamports lamports\<rparr>"

definition vaultTransactionCreate ::
    "string \<Rightarrow> Keypair \<Rightarrow> PublicKey \<Rightarrow> int \<Rightarrow> nat \<Rightarrow> TransactionMessage \<Rightarrow> Transaction" where
  "vaultTransactionCreate blockhash creator multisigPda transactionIndex ephemeralSigners transactionMessage =
     VaultTransactionCreateTx
       \<lparr>vt_blockhash = blockhash,
        vt_feePayer = publicKey creator,
        vt_multisigPda = multisigPda,
        vt_transactionIndex = transactionIndex,
        vt_creator = publicKey creator,
        vt_vaultIndex = 0,
        vt_ephemeralSigners = ephemeralSigners,
        vt_transactionMessage = transactionMessage,
        vt_programId = SQUADS_PROGRAM_ID,
        vt_signers = [publicKey creator]\<rparr>"

definition proposalCreate :: "string \<Rightarrow> Keypair \<Rightarrow> PublicKey \<Rightarrow> int \<Rightarrow> Transaction" where
  "proposalCreate blockhash creator multisigPda transactionIndex =
     ProposalCreateTx
       \<lparr>pc_blockhash = blockhash,
        pc_feePayer = publicKey creator,
        pc_multisigPda = multisigPda,
        pc_transactionIndex = transactionIndex,
        pc_creator = publicKey creator,
        pc_programId = SQUADS_PROGRAM_ID,
        pc_signers = [publicKey creator]\<rparr>"

text \<open>
  What precedes every send of the builders:
  \<open>const tx = multisig.transactions.<builder>({...}); tx.sign([creator]); ... tx.serialize()\<close>.
  The first of the three calls that throws ends it.
\<close>

definition signAndSerialize :: "lib \<Rightarrow> Transaction \<Rightarrow> Keypair list \<Rightarrow> thrown + unit" where
  "signAndSerialize lib tx signers =
     (case buildTransaction lib tx of
        Inl e \<Rightarrow> Inl e
      | Inr _ \<Rightarrow>
          (case signTransaction lib tx signers of
             Inl e \<Rightarrow> Inl e
           | Inr _ \<Rightarrow> serializeTransaction lib tx))"

text \<open>
  The \<open>try\<close> block that ends both builders; the two copies in the source differ in the
  number of ephemeral signers (and in what they log) only. Each transaction is built,
  signed by the creator and serialized before it is sent, and an exception of any of
  these steps ends the block before the send. The \<open>catch\<close> logs and rethrows.
\<close>

definition submitVaultTransactionAndProposal ::
    "'w io \<Rightarrow> lib \<Rightarrow> Keypair \<Rightarrow> PublicKey \<Rightarrow> int \<Rightarrow> nat \<Rightarrow> TransactionMessage \<Rightarrow> ('w, string) proc" where
  "submitVaultTransactionAndProposal io lib creator multisigPda transactionIndex ephemeralSigners transactionMessage =
     tryCatch
       (andThen (conn_getLatestBlockhash io) (\<lambda>blockhash.
        let vaultTx = vaultTransactionCreate blockhash creator multisigPda transactionIndex
                        ephemeralSigners transactionMessage
        in
        andThen (pure (signAndSerialize lib vaultTx [creator])) (\<lambda>_.
        andThen (conn_sendRawTransaction io vaultTx False) (\<lambda>vaultTxSig.
        andThen (conn_confirmTransaction io vaultTxSig) (\<lambda>_.
        andThen (conn_getLatestBlockhash io) (\<lambda>blockhash2.
        let proposalTx = proposalCreate blockhash2 creator multisigPda transactionIndex
        in
        andThen (pure (signAndSerialize lib proposalTx [creator])) (\<lambda>_.
        andThen (conn_sendRawTransaction io proposalTx False) (\<lambda>proposalTxSig.
        andThen (conn_confirmTransaction io proposalTxSig) (\<lambda>_.
        return proposalTxSig)))))))))
       (\<lambda>e. throw e)"

text \<open>
  Between the transaction message and the \<open>try\<close> block, both builders derive the
  vault-transaction address of \<open>transactionIndex\<close> for the log, outside the \<open>try\<close>.
\<close>

definition createTransferProposal ::
    "'w io \<Rightarrow> lib \<Rightarrow> Keypair \<Rightarrow> PublicKey \<Rightarrow> PublicKey \<Rightarrow> PublicKey \<Rightarrow> int \<Rightarrow> int \<Rightarrow> ('w, string) proc" where
  "createTransferProposal io lib creator multisigPda vaultPda recipient amountLamports transactionIndex =
     andThen (waitForMultisig io multisigPda 15) (\<lambda>_.
     andThen (conn_getBalance io vaultPda) (\<lambda>vaultBalance.
       if int vaultBalance < amountLamports then
         throw (Error (''Insufficient vault balance. Has '' @ formatSol lib (int vaultBalance)
                       @ '' SOL, need '' @ formatSol lib amountLamports @ '' SOL''))
       else
         (let transferIx = SystemProgram_transfer vaultPda recipient amountLamports
          in andThen (conn_getLatestBlockhash io) (\<lambda>blockhash.
             andThen (pure (getTransactionPda lib multisigPda transactionIndex SQUADS_PROGRAM_ID)) (\<lambda>expectedTxPda.
               submitVaultTransactionAndProposal io lib creator multisigPda transactionIndex 0
                 \<lparr>payerKey = vaultPda, recentBlockhash = blockhash, instructions = [transferIx]\<rparr>)))))"

subsection \<open>The swap path\<close>

fun convertAccounts :: "lib \<Rightarrow> SwapInstructionAccount list \<Rightarrow> thrown + AccountMeta list" where
  "convertAccounts lib [] = Inr []"
| "convertAccounts lib (acc # accs) =
     (case newPublicKey lib (sa_pubkey acc) of
        Inl e \<Rightarrow> Inl e
      | Inr k \<Rightarrow>
          (case convertAccounts lib accs of
             Inl e \<Rightarrow> Inl e
           | Inr ks \<Rightarrow> Inr (\<lparr>pubkey = k, isSigner = sa_isSigner acc, isWritable = sa_isWritable acc\<rparr> # ks)))"

definition convertSwapInstruction :: "lib \<Rightarrow> SwapInstructionData \<Rightarrow> thrown + TransactionInstruction" where
  "convertSwapInstruction lib ix =
     (case newPublicKey lib (si_programId ix) of
        Inl e \<Rightarrow> Inl e
      | Inr p \<Rightarrow>
          (case convertAccounts lib (si_accounts ix) of
             Inl e \<Rightarrow> Inl e
           | Inr ks \<Rightarrow> Inr \<lparr>programId = p, keys = ks, ix_data = FromBase64 (si_data ix)\<rparr>))"

text \<open>\<open>for (const ix of xs) allInstructions.push(convertSwapInstruction(ix))\<close>.\<close>

fun pushConverted ::
    "lib \<Rightarrow> SwapInstructionData list \<Rightarrow> TransactionInstruction list \<Rightarrow> thrown + TransactionInstruction list" where
  "pushConverted lib [] allInstructions = Inr allInstructions"
| "pushConverted lib (ix # ixs) allInstructions =
     (case convertSwapInstruction lib ix of
        Inl e \<Rightarrow> Inl e
      | Inr t \<Rightarrow> pushConverted lib ixs (allInstructions @ [t]))"

definition buildAllInstructions :: "lib \<Rightarrow> SwapInstructionsResponse \<Rightarrow> thrown + TransactionInstruction list" where
  "buildAllInstructions lib swapInstructions =
     (case pushConverted lib (computeBudgetInstructions swapInstructions) [] of
        Inl e \<Rightarrow> Inl e
      | Inr a1 \<Rightarrow>
     (case pushConverted lib (setupInstructions swapInstructions) a1 of
        Inl e \<Rightarrow> Inl e
      | Inr a2 \<Rightarrow>
     (case pushConverted lib [swapInstruction swapInstructions] a2 of
        Inl e \<Rightarrow> Inl e
      | Inr a3 \<Rightarrow>
     (case pushConverted lib (case cleanupInstruction swapInstructions of None \<Rightarrow> [] | Some ix \<Rightarrow> [ix]) a3 of
        Inl e \<Rightarrow> Inl e
      | Inr a4 \<Rightarrow> pushConverted lib (otherInstructions swapInstructions) a4))))"

text \<open>
  The signer count: the inner loop over the keys of one instruction and the outer loop
  over the instructions, on the pair of \<open>ephemeralSignersNeeded\<close> and \<open>seenSigners\<close>.
\<close>

fun countKeys :: "PublicKey \<Rightarrow> Keypair \<Rightarrow> AccountMeta list \<Rightarrow> nat \<times> string set \<Rightarrow> nat \<times> string set" where
  "countKeys vaultPda creator [] acc = acc"
| "countKeys vaultPda creator (k # ks) (ephemeralSignersNeeded, seenSigners) =
     (let pubkeyStr = toBase58 (pubkey k)
      in if \<not> isSigner k then countKeys vaultPda creator ks (ephemeralSignersNeeded, seenSigners)
         else if pubkey k = vaultPda then countKeys vaultPda creator ks (ephemeralSignersNeeded, seenSigners)
         else if pubkey k = publicKey creator then countKeys vaultPda creator ks (ephemeralSignersNeeded, seenSigners)
         else if pubkeyStr \<in> seenSigners then countKeys vaultPda creator ks (ephemeralSignersNeeded, seenSigners)
         else countKeys vaultPda creator ks (Suc ephemeralSignersNeeded, insert pubkeyStr seenSigners))"

fun countSigners ::
    "PublicKey \<Rightarrow> Keypair \<Rightarrow> TransactionInstruction list \<Rightarrow> nat \<times> string set \<Rightarrow> nat \<times> string set" where
  "countSigners vaultPda creator [] acc = acc"
| "countSigners vaultPda creator (ix # ixs) acc =
     countSigners vaultPda creator ixs (countKeys vaultPda creator (keys ix) acc)"

definition ephemeralSignersNeeded :: "PublicKey \<Rightarrow> Keypair \<Rightarrow> TransactionInstruction list \<Rightarrow> nat" where
  "ephemeralSignersNeeded vaultPda creator allInstructions =
     fst (countSigners vaultPda creator allInstructions (0, {}))"

definition createSwapProposal ::
    "'w io \<Rightarrow> lib \<Rightarrow> Keypair \<Rightarrow> PublicKey \<Rightarrow> PublicKey \<Rightarrow> SwapInstructionsResponse \<Rightarrow> int \<Rightarrow> ('w, string) proc" where
  "createSwapProposal io lib creator multisigPda vaultPda swapInstructions transactionIndex =
     andThen (waitForMultisig io multisigPda 15) (\<lambda>_.
     andThen (pure (buildAllInstructions lib swapInstructions)) (\<lambda>allInstructions.
     andThen (conn_getLatestBlockhash io) (\<lambda>blockhash.
     andThen (pure (getTransactionPda lib multisigPda transactionIndex SQUADS_PROGRAM_ID)) (\<lambda>expectedTxPda.
       submitVaultTransactionAndProposal io lib creator multisigPda transactionIndex
         (ephemeralSignersNeeded vaultPda creator allInstructions)
         \<lparr>payerKey = vaultPda, recentBlockhash = blockhash, instructions = allInstructions\<rparr>))))"

section \<open>Execution Engine (\<open>executeSwap\<close>, \<open>executeSwapJito\<close>)\<close>

text \<open>
  \<open>deserialize\<close> of the library record is \<open>VersionedTransaction.deserialize\<close> of the
  decoded payload; \<open>sign\<close> is \<open>transaction.sign([signer])\<close> followed by the base58 form
  of the first signature.
\<close>

definition SWAP_TIMEOUT_MS :: nat where
  "SWAP_TIMEOUT_MS = 90000"

definition swapFailure :: "string option \<Rightarrow> string \<Rightarrow> string \<Rightarrow> SwapResult" where
  "swapFailure sig msg code =
     \<lparr>success = False, swap_signature = sig, swap_error = Some msg, errorCode = Some code\<rparr>"

definition swapSuccess :: "string \<Rightarrow> SwapResult" where
  "swapSuccess sig = \<lparr>success = True, swap_signature = Some sig, swap_error = None, errorCode = None\<rparr>"

text \<open>The \<open>catch\<close> of \<open>executeSwap\<close>.\<close>

definition executeSwapCatch :: "error \<Rightarrow> SwapResult" where
  "executeSwapCatch e =
     (if instanceofError e then
        (let m = toLowerCase (message e)
         in if str_includes m ''insufficient funds'' \<or> str_includes m ''insufficient lamports'' then
              swapFailure None ''Insufficient SOL for transaction fees'' ''INSUFFICIENT_SOL''
            else if str_includes m ''slippage'' \<or> str_includes m ''0x1788'' then
              swapFailure None ''Price changed too much. Try increasing slippage.'' ''SLIPPAGE_EXCEEDED''
            else if str_includes m ''blockhash'' \<or> str_includes m ''expired'' then
              swapFailure None ''Transaction expired. Please try again.'' ''TX_EXPIRED''
            else swapFailure None (message e) ''EXECUTION_ERROR'')
      else swapFailure None ''Unknown error during swap'' ''UNKNOWN'')"

text \<open>\<open>Promise.race\<close> of the confirmation and the timer that rejects after \<open>SWAP_TIMEOUT_MS\<close>.\<close>

definition raceConfirmation :: "'w io \<Rightarrow> string \<Rightarrow> ('w, string option) proc" where
  "raceConfirmation io signature s =
     (case conn_confirmTransactionWithin io SWAP_TIMEOUT_MS signature s of
        (None, s') \<Rightarrow> (Inl (Error ''Confirmation timeout''), s')
      | (Some r, s') \<Rightarrow> (map_sum External id r, s'))"

definition executeSwap :: "'w io \<Rightarrow> lib \<Rightarrow> SwapTransaction \<Rightarrow> Keypair \<Rightarrow> 'w state \<Rightarrow> SwapResult \<times> 'w state" where
  "executeSwap io lib swapTx signer s =
     (case andThen (pure (deserialize lib (swap_transaction swapTx))) (\<lambda>transaction.
           andThen (pure (sign lib transaction signer)) (\<lambda>_.
           andThen (conn_sendTransaction io (DeserializedTx transaction [publicKey signer]) False) (\<lambda>signature.
           andThen (raceConfirmation io signature) (\<lambda>confirmation_err.
             case confirmation_err of
               Some err \<Rightarrow> return (swapFailure (Some signature) ''Transaction failed on-chain'' ''TX_FAILED'')
             | None \<Rightarrow> return (swapSuccess signature))))) s of
        (Inr r, s') \<Rightarrow> (r, s')
      | (Inl e, s') \<Rightarrow> (executeSwapCatch e, s'))"

definition JITO_TX_ENDPOINTS :: "string list" where
  "JITO_TX_ENDPOINTS =
     [''https://mainnet.block-engine.jito.wtf/api/v1/transactions'',
      ''https://amsterdam.mainnet.block-engine.jito.wtf/api/v1/transactions'',
      ''https://frankfurt.mainnet.block-engine.jito.wtf/api/v1/transactions'',
      ''https://ny.mainnet.block-engine.jito.wtf/api/v1/transactions'',
      ''https://tokyo.mainnet.block-engine.jito.wtf/api/v1/transactions'']"

text \<open>The loop over the relay endpoints: the value of \<open>sent\<close>. An exception of an iteration is dropped.\<close>

fun sendToJito :: "'w io \<Rightarrow> string \<Rightarrow> string list \<Rightarrow> 'w state \<Rightarrow> bool \<times> 'w state" where
  "sendToJito io serializedTx [] s = (False, s)"
| "sendToJito io serializedTx (endpoint # endpoints) s =
     (case conn_fetch io endpoint serializedTx s of
        (Inl e, s') \<Rightarrow> sendToJito io serializedTx endpoints s'
      | (Inr response, s') \<Rightarrow>
          (if response_ok response then
             (case response_json response of
                Inl e \<Rightarrow> sendToJito io serializedTx endpoints s'
              | Inr result \<Rightarrow>
                  (if result then (True, s') else sendToJito io serializedTx endpoints s'))
           else sendToJito io serializedTx endpoints s'))"

text \<open>\<open>executeSwapJito\<close> up to the start of the polling: the signature it tracks.\<close>

definition jitoSubmit :: "'w io \<Rightarrow> lib \<Rightarrow> SwapTransaction \<Rightarrow> Keypair \<Rightarrow> ('w, string) proc" where
  "jitoSubmit io lib swapTx signer =
     andThen (pure (deserialize lib (swap_transaction swapTx))) (\<lambda>transaction.
     andThen (pure (sign lib transaction signer)) (\<lambda>signature.
       (\<lambda>s. case sendToJito io transaction JITO_TX_ENDPOINTS s of
              (sent, s') \<Rightarrow>
                (if \<not> sent then
                   andThen (conn_sendRawTransaction io (DeserializedTx transaction [publicKey signer]) True)
                     (\<lambda>_. return signature) s'
                 else (Inr signature, s')))))"

text \<open>
  The confirmation polling. The loop runs while the clock of the world says so, so it
  need not end: \<open>None\<close> is a run that polls forever.
\<close>

partial_function (option) pollSignatureStatus ::
    "'w io \<Rightarrow> string \<Rightarrow> int \<Rightarrow> int \<Rightarrow> 'w state \<Rightarrow> (SwapResult \<times> 'w state) option" where
  "pollSignatureStatus io signature startTime timeout s =
     (if dateNow io (fst s) - startTime < timeout then
        (case conn_getSignatureStatus io signature s of
           (Inl e, s') \<Rightarrow> pollSignatureStatus io signature startTime timeout (sleep io 200 s')
         | (Inr None, s') \<Rightarrow> pollSignatureStatus io signature startTime timeout (sleep io 200 s')
         | (Inr (Some st), s') \<Rightarrow>
             (if confirmationStatus st = Some ''confirmed'' \<or> confirmationStatus st = Some ''finalized'' then
                (case status_err st of
                   Some errStr \<Rightarrow>
                     (if str_includes errStr ''6024'' \<or> str_includes errStr ''1788'' then
                        Some (swapFailure (Some signature) ''Price moved too much - slippage exceeded''
                                ''SLIPPAGE_EXCEEDED'', s')
                      else Some (swapFailure (Some signature) ''Transaction failed on-chain'' ''TX_FAILED'', s'))
                 | None \<Rightarrow> Some (swapSuccess signature, s'))
              else pollSignatureStatus io signature startTime timeout (sleep io 200 s')))
      else Some (swapSuccess signature, s))"

definition executeSwapJito ::
    "'w io \<Rightarrow> lib \<Rightarrow> SwapTransaction \<Rightarrow> Keypair \<Rightarrow> nat \<Rightarrow> 'w state \<Rightarrow> (SwapResult \<times> 'w state) option" where
  "executeSwapJito io lib swapTx signer tipLamports s =
     (case jitoSubmit io lib swapTx signer s of
        (Inl e, s') \<Rightarrow> Some (executeSwap io lib swapTx signer s')
      | (Inr signature, s') \<Rightarrow> pollSignatureStatus io signature (dateNow io (fst s')) 8000 s')"

section \<open>A reference ledger\<close>

text \<open>
  A small deterministic world on which runs can be computed: accounts and balances are
  read as they are, a submission is answered from a script of faults (an empty script
  accepts), an accepted multisig creation adds the account, owned by the Squads program,
  and signature statuses are answered from a script. Its library derives addresses by
  tagging the key (a transaction index by its low byte), and its serializer refuses a
  vault transaction whose instructions name more than 26 accounts.
\<close>

record ledger =
  accounts :: "(PublicKey \<times> AccountInfo) list"
  lamports :: "(PublicKey \<times> nat) list"
  faults :: "thrown option list"
  statuses :: "(thrown + SignatureStatus option) list"
  clock :: int

definition ledgerApply :: "Transaction \<Rightarrow> ledger \<Rightarrow> ledger" where
  "ledgerApply tx w =
     (case tx of
        MultisigCreateTx a \<Rightarrow>
          w\<lparr>accounts := (mc_multisig a, \<lparr>owner = SQUADS_PROGRAM_ID, account_data = [0]\<rparr>) # accounts w\<rparr>
      | _ \<Rightarrow> w)"

definition ledgerSubmit :: "Transaction \<Rightarrow> ledger \<Rightarrow> (thrown + string) \<times> ledger" where
  "ledgerSubmit tx w =
     (case faults w of
        [] \<Rightarrow> (Inr ''sig'', ledgerApply tx w)
      | None # fs \<Rightarrow> (Inr ''sig'', ledgerApply tx (w\<lparr>faults := fs\<rparr>))
      | Some f # fs \<Rightarrow> (Inl f, w\<lparr>faults := fs\<rparr>))"

definition ledgerIo :: "ledger io" where
  "ledgerIo =
     \<lparr>getBalance = (\<lambda>a w. (Inr (case map_of (lamports w) a of None \<Rightarrow> 0 | Some b \<Rightarrow> b), w)),
      getAccountInfo = (\<lambda>a c w. (Inr (map_of (accounts w) a), w)),
      getLatestBlockhash = (\<lambda>w. (Inr ''blockhash'', w)),
      sendTransaction = (\<lambda>tx skipPreflight w. ledgerSubmit tx w),
      sendRawTransaction = (\<lambda>tx skipPreflight w. ledgerSubmit tx w),
      confirmTransaction = (\<lambda>sig w. (Inr None, w)),
      confirmTransactionWithin = (\<lambda>ms sig w. (Some (Inr None), w)),
      getSignatureStatus = (\<lambda>sig w.
         case statuses w of [] \<Rightarrow> (Inr None, w) | r # rs \<Rightarrow> (r, w\<lparr>statuses := rs\<rparr>)),
      fetch = (\<lambda>url body w. (Inl (LibError ''fetch failed'' ''{}''), w)),
      setTimeout = (\<lambda>ms w. w\<lparr>clock := clock w + int ms\<rparr>),
      dateNow = clock\<rparr>"

definition hexByte :: "8 word \<Rightarrow> string" where
  "hexByte b = [''0123456789abcdef'' ! (unat b div 16), ''0123456789abcdef'' ! (unat b mod 16)]"

definition accountCount :: "Transaction \<Rightarrow> nat" where
  "accountCount tx =
     (case tx of
        VaultTransactionCreateTx a \<Rightarrow> length (concat (map keys (instructions (vt_transactionMessage a))))
      | _ \<Rightarrow> 0)"

definition ledgerLib :: lib where
  "ledgerLib =
     \<lparr>toBytes = (\<lambda>k. map (\<lambda>c. of_nat (of_char c)) (toBase58 k)),
      fromSeed = (\<lambda>seed. Keypair (PublicKey (concat (map hexByte seed))) seed),
      getMultisigPda = (\<lambda>createKey p. PublicKey (''multisig/'' @ toBase58 createKey)),
      getVaultPda = (\<lambda>m index p. PublicKey (''vault/'' @ toBase58 m)),
      transactionPda = (\<lambda>m index p. PublicKey (''tx/'' @ hexByte (of_int index) @ ''/'' @ toBase58 m)),
      u64RangeError = (\<lambda>index. LibError ''index out of range'' ''{}''),
      getProgramConfigPda = (\<lambda>p. PublicKey ''program_config''),
      multisigFromAccountInfo = (\<lambda>a.
         case account_data a of [] \<Rightarrow> Inl (LibError ''not a multisig'' ''{}'') | b # bs \<Rightarrow> Inr (uint b)),
      newPublicKey = (\<lambda>str. if str = [] then Inl (LibError ''Invalid public key input'' ''{}'')
                              else Inr (PublicKey str)),
      formatSol = (\<lambda>n. ''?''),
      deserialize = (\<lambda>payload. if payload = [] then Inl (LibError ''bad payload'' ''{}'') else Inr payload),
      sign = (\<lambda>transaction signer. Inr (''sig/'' @ transaction)),
      buildTransaction = (\<lambda>tx. Inr ()),
      signTransaction = (\<lambda>tx signers. Inr ()),
      serializeTransaction = (\<lambda>tx.
         if 26 < accountCount tx then Inl (LibError ''encoding overruns Uint8Array'' ''{}'') else Inr ())\<rparr>"

definition emptyLedger :: ledger where
  "emptyLedger = \<lparr>accounts = [], lamports = [], faults = [], statuses = [], clock = 0\<rparr>"

text \<open>Three ledgers and a wallet on which the theorems below are exercised.\<close>

definition wallet :: PublicKey where
  "wallet = PublicKey ''wallet''"

definition occupied :: AccountInfo where
  "occupied = \<lparr>owner = SQUADS_PROGRAM_ID, account_data = []\<rparr>"

definition busyLedger :: ledger where
  "busyLedger = emptyLedger\<lparr>accounts :=
     [(wallet, \<lparr>owner = SQUADS_PROGRAM_ID, account_data = [4]\<rparr>),
      (transactionPda ledgerLib wallet 5 SQUADS_PROGRAM_ID, occupied),
      (transactionPda ledgerLib wallet 6 SQUADS_PROGRAM_ID, occupied)]\<rparr>"

section \<open>Observing a run\<close>

text \<open>
  \<open>emits E m\<close>: whatever the state, a run of \<open>m\<close> only appends events to the trace, and
  every event it appends is in \<open>E\<close>.
\<close>

definition emits :: "event set \<Rightarrow> ('w state \<Rightarrow> 'r \<times> 'w state) \<Rightarrow> bool" where
  "emits E m = (\<forall>s. \<exists>evs. snd (snd (m s)) = snd s @ evs \<and> set evs \<subseteq> E)"

definition alice :: Keypair where
  "alice = Keypair (PublicKey ''AAAAAAAAAAAAAAAAAAAAAAAAAAAAAAAA'') []"

definition bob :: PublicKey where
  "bob = PublicKey ''BBBBBBBBBBBBBBBBBBBBBBBBBBBBBBBB''"

definition fundedLedger :: ledger where
  "fundedLedger = emptyLedger\<lparr>lamports := [(publicKey alice, 50000000)]\<rparr>"

text \<open>The events that submit a transaction or await its confirmation.\<close>

fun isSubmission :: "event \<Rightarrow> bool" where
  "isSubmission (SendTransaction tx sp r) = True"
| "isSubmission (SendRawTransaction tx sp r) = True"
| "isSubmission (ConfirmTransaction sig r) = True"
| "isSubmission (ConfirmTransactionWithin ms sig r) = True"
| "isSubmission ev = False"

text \<open>The signer addresses the swap path has to count, in base58: those of the keys marked as signers that are neither the vault nor the creator.\<close>

definition ephemeralSigners :: "PublicKey \<Rightarrow> Keypair \<Rightarrow> TransactionInstruction list \<Rightarrow> string set" where
  "ephemeralSigners vaultPda creator allInstructions =
     {toBase58 (pubkey k) | k ix.
        ix \<in> set allInstructions \<and> k \<in> set (keys ix) \<and> isSigner k
        \<and> pubkey k \<noteq> vaultPda \<and> pubkey k \<noteq> publicKey creator}"

text \<open>The same for the keys of one instruction.\<close>

definition keySigners :: "PublicKey \<Rightarrow> Keypair \<Rightarrow> AccountMeta list \<Rightarrow> string set" where
  "keySigners vaultPda creator ks =
     {toBase58 (pubkey k) | k. k \<in> set ks \<and> isSigner k \<and> pubkey k \<noteq> vaultPda \<and> pubkey k \<noteq> publicKey creator}"

text \<open>A swap bundle of the routing service, with two signer accounts besides the vault and the creator.\<close>

definition vault :: PublicKey where
  "vault = PublicKey ''vault''"

definition swapAccount :: "string \<Rightarrow> bool \<Rightarrow> SwapInstructionAccount" where
  "swapAccount a s = \<lparr>sa_pubkey = a, sa_isSigner = s, sa_isWritable = True\<rparr>"

definition swapBundle :: SwapInstructionsResponse where
  "swapBundle =
     \<lparr>computeBudgetInstructions =
        [\<lparr>si_programId = ''ComputeBudget'', si_accounts = [], si_data = ''AA==''\<rparr>],
      setupInstructions =
        [\<lparr>si_programId = ''AToken'',
          si_accounts = [swapAccount ''vault'' True, swapAccount ''wsol'' True, swapAccount ''mint'' False],
          si_data = ''AQ==''\<rparr>],
      swapInstruction =
        \<lparr>si_programId = ''JUP'',
         si_accounts = [swapAccount ''vault'' True, swapAccount ''wsol'' True, swapAccount ''temp'' True,
                        swapAccount ''AAAAAAAAAAAAAAAAAAAAAAAAAAAAAAAA'' True, swapAccount ''pool'' False],
         si_data = ''Ag==''\<rparr>,
      cleanupInstruction =
        Some \<lparr>si_programId = ''Token'', si_accounts = [swapAccount ''wsol'' True], si_data = ''CQ==''\<rparr>,
      otherInstructions = [],
      addressLookupTableAddresses = []\<rparr>"

definition walletLedger :: ledger where
  "walletLedger = emptyLedger\<lparr>accounts := [(wallet, \<lparr>owner = SQUADS_PROGRAM_ID, account_data = [4]\<rparr>)]\<rparr>"

definition signerMeta :: "string \<Rightarrow> bool \<Rightarrow> AccountMeta" where
  "signerMeta a s = \<lparr>pubkey = PublicKey a, isSigner = s, isWritable = True\<rparr>"

definition swapBuilt :: "TransactionInstruction list" where
  "swapBuilt =
     [\<lparr>programId = PublicKey ''ComputeBudget'', keys = [], ix_data = FromBase64 ''AA==''\<rparr>,
      \<lparr>programId = PublicKey ''AToken'',
       keys = [signerMeta ''vault'' True, signerMeta ''wsol'' True, signerMeta ''mint'' False],
       ix_data = FromBase64 ''AQ==''\<rparr>,
      \<lparr>programId = PublicKey ''JUP'',
       keys = [signerMeta ''vault'' True, signerMeta ''wsol'' True, signerMeta ''temp'' True,
               signerMeta ''AAAAAAAAAAAAAAAAAAAAAAAAAAAAAAAA'' True, signerMeta ''pool'' False],
       ix_data = FromBase64 ''Ag==''\<rparr>,
      \<lparr>programId = PublicKey ''Token'', keys = [signerMeta ''wsol'' True], ix_data = FromBase64 ''CQ==''\<rparr>]"



definition poorLedger :: ledger where
  "poorLedger = walletLedger\<lparr>lamports := [(vault, 500000000)]\<rparr>"

section \<open>The attempts of a run of \<open>createSquad\<close>\<close>

text \<open>
  The outcomes of the attempts \<open>i\<close>, \<open>i + 1\<close>, ... of a run from state \<open>s\<close>, at most \<open>n\<close> of
  them: the loop leaves at the first return and at the first exception that no \<open>catch\<close>
  holds. \<open>lastCaught\<close> is the error of the last attempt that ended in the \<open>catch\<close>.
\<close>

fun attemptOutcomes ::
    "'w io \<Rightarrow> lib \<Rightarrow> Keypair \<Rightarrow> PublicKey \<Rightarrow> int \<Rightarrow> nat \<Rightarrow> nat \<Rightarrow> 'w state \<Rightarrow> outcome list" where
  "attemptOutcomes io lib creator member2 threshold i 0 s = []"
| "attemptOutcomes io lib creator member2 threshold i (Suc n) s =
     (case createSquadAttempt io lib creator member2 threshold i s of
        (Returned r, s') \<Rightarrow> [Returned r]
      | (Skipped, s') \<Rightarrow> Skipped # attemptOutcomes io lib creator member2 threshold (Suc i) n s'
      | (Caught e, s') \<Rightarrow> Caught e # attemptOutcomes io lib creator member2 threshold (Suc i) n s'
      | (Raised e, s') \<Rightarrow> [Raised e])"

fun lastCaught :: "outcome list \<Rightarrow> error option" where
  "lastCaught [] = None"
| "lastCaught (oc # ocs) =
     (case lastCaught ocs of
        Some e \<Rightarrow> Some e
      | None \<Rightarrow> (case oc of Caught e \<Rightarrow> Some e | _ \<Rightarrow> None))"

definition failedAttempt :: "outcome \<Rightarrow> bool" where
  "failedAttempt oc = (case oc of Skipped \<Rightarrow> True | Caught e \<Rightarrow> True | _ \<Rightarrow> False)"

text \<open>Ledgers for \<open>createSquad\<close>: one whose node refuses every submission, one whose node refuses the first submission only, one with a foreign account at the address of attempt 0.\<close>

definition networkDown :: thrown where
  "networkDown = LibError ''Network request failed'' ''{}''"

definition downLedger :: ledger where
  "downLedger = fundedLedger\<lparr>faults :=
     [Some networkDown, Some networkDown, Some networkDown, Some networkDown, Some networkDown,
      Some networkDown, Some networkDown, Some networkDown, Some networkDown, Some networkDown]\<rparr>"

definition flakyLedger :: ledger where
  "flakyLedger = fundedLedger\<lparr>faults := [Some networkDown]\<rparr>"

definition squadsAccount :: AccountInfo where
  "squadsAccount = \<lparr>owner = SQUADS_PROGRAM_ID, account_data = [0]\<rparr>"

definition afterFlaky :: ledger where
  "afterFlaky = fundedLedger\<lparr>accounts := [(multisigPdaAt ledgerLib alice 1, squadsAccount)]\<rparr>"

definition zombieAccount :: AccountInfo where
  "zombieAccount = \<lparr>owner = SystemProgram_programId, account_data = []\<rparr>"

definition zombieLedger :: ledger where
  "zombieLedger = fundedLedger\<lparr>accounts := [(multisigPdaAt ledgerLib alice 0, zombieAccount)]\<rparr>"

definition afterZombie :: ledger where
  "afterZombie = fundedLedger\<lparr>accounts :=
     [(multisigPdaAt ledgerLib alice 1, squadsAccount), (multisigPdaAt ledgerLib alice 0, zombieAccount)]\<rparr>"

text \<open>
  What a trace holds for the address of attempt \<open>i\<close> when it was seen owned by the Squads
  program, or when its creation was submitted, accepted and confirmed without error.
\<close>

definition verifiedOrCreated :: "lib \<Rightarrow> Keypair \<Rightarrow> PublicKey \<Rightarrow> int \<Rightarrow> nat \<Rightarrow> event list \<Rightarrow> bool" where
  "verifiedOrCreated lib creator member2 threshold i tr =
     ((\<exists>c info. GetAccountInfo (multisigPdaAt lib creator i) c (Inr info) \<in> set tr
                 \<and> ownedBySquads info)
      \<or> (\<exists>bh sig. SendTransaction (multisigCreateTx lib creator member2 threshold i bh) False (Inr sig)
                     \<in> set tr
                   \<and> ConfirmTransaction sig (Inr None) \<in> set tr))"

text \<open>A ledger whose node answers the first creation with the already-initialized error of the program, while no account shows at the address.\<close>

definition alreadyInitialized :: thrown where
  "alreadyInitialized = LibError ''custom program error: 6014'' ''{}''"

definition raceLedger :: ledger where
  "raceLedger = fundedLedger\<lparr>faults := [Some alreadyInitialized]\<rparr>"

text \<open>
  A ledger for the low-latency path: the relays are unreachable, and the first status
  poll finds the transaction confirmed with the program error 6024, as
  \<open>JSON.stringify\<close> renders it.
\<close>

definition dq :: char where
  "dq = CHR 0x22"

definition slippageErr :: string where
  "slippageErr = ''{'' @ dq # ''InstructionError'' @ dq # '':[2,{'' @ dq # ''Custom'' @ dq # '':6024}]}''"

definition slippageStatus :: SignatureStatus where
  "slippageStatus = \<lparr>confirmationStatus = Some ''confirmed'', status_err = Some slippageErr\<rparr>"

definition slippageLedger :: ledger where
  "slippageLedger = emptyLedger\<lparr>statuses := [Inr (Some slippageStatus)]\<rparr>"

definition swapPayload :: SwapTransaction where
  "swapPayload = \<lparr>swap_transaction = ''AQAB'', lastValidBlockHeight = 100, prioritizationFeeLamports = 0\<rparr>"

text \<open>A status that reports the transaction confirmed with an error whose serialized form holds the slippage code.\<close>

definition slippageReported :: "SignatureStatus \<Rightarrow> bool" where
  "slippageReported st =
     ((confirmationStatus st = Some ''confirmed'' \<or> confirmationStatus st = Some ''finalized'')
      \<and> (case status_err st of
            None \<Rightarrow> False
          | Some errStr \<Rightarrow> str_includes errStr ''6024'' \<or> str_includes errStr ''1788''))"

section \<open>Evaluation on the reference ledger\<close>

declare probeTransactionIndex.simps [simp del]
declare createSquadLoop.simps [simp del]

lemma ledgerIo_simps:
  "getBalance ledgerIo a w = (Inr (case map_of (lamports w) a of None \<Rightarrow> 0 | Some b \<Rightarrow> b), w)"
  "getAccountInfo ledgerIo a c w = (Inr (map_of (accounts w) a), w)"
  "getLatestBlockhash ledgerIo w = (Inr ''blockhash'', w)"
  "sendTransaction ledgerIo tx sp w = ledgerSubmit tx w"
  "sendRawTransaction ledgerIo tx sp w = ledgerSubmit tx w"
  "confirmTransaction ledgerIo sig w = (Inr None, w)"
  "confirmTransactionWithin ledgerIo ms sig w = (Some (Inr None), w)"
  "getSignatureStatus ledgerIo sig w =
     (case statuses w of [] \<Rightarrow> (Inr None, w) | r # rs \<Rightarrow> (r, w\<lparr>statuses := rs\<rparr>))"
  "fetch ledgerIo url body w = (Inl (LibError ''fetch failed'' ''{}''), w)"
  "setTimeout ledgerIo ms w = w\<lparr>clock := clock w + int ms\<rparr>"
  "dateNow ledgerIo w = clock w"
  by (simp_all add: ledgerIo_def)

lemma ledgerLib_simps:
  "toBytes ledgerLib k = map (\<lambda>c. of_nat (of_char c)) (toBase58 k)"
  "fromSeed ledgerLib seed = Keypair (PublicKey (concat (map hexByte seed))) seed"
  "getMultisigPda ledgerLib createKey p = PublicKey (''multisig/'' @ toBase58 createKey)"
  "getVaultPda ledgerLib m index p = PublicKey (''vault/'' @ toBase58 m)"
  "transactionPda ledgerLib m idx p = PublicKey (''tx/'' @ hexByte (of_int idx) @ ''/'' @ toBase58 m)"
  "getProgramConfigPda ledgerLib p = PublicKey ''program_config''"
  "multisigFromAccountInfo ledgerLib a =
     (case account_data a of [] \<Rightarrow> Inl (LibError ''not a multisig'' ''{}'') | b # bs \<Rightarrow> Inr (uint b))"
  "newPublicKey ledgerLib str =
     (if str = [] then Inl (LibError ''Invalid public key input'' ''{}'') else Inr (PublicKey str))"
  "formatSol ledgerLib n = ''?''"
  "deserialize ledgerLib payload =
     (if payload = [] then Inl (LibError ''bad payload'' ''{}'') else Inr payload)"
  "sign ledgerLib transaction signer = Inr (''sig/'' @ transaction)"
  "u64RangeError ledgerLib idx = LibError ''index out of range'' ''{}''"
  "buildTransaction ledgerLib tx = Inr ()"
  "signTransaction ledgerLib tx signers = Inr ()"
  "serializeTransaction ledgerLib tx =
     (if 26 < accountCount tx then Inl (LibError ''encoding overruns Uint8Array'' ''{}'') else Inr ())"
  by (simp_all add: ledgerLib_def)

lemmas conn_defs = await_def conn_getBalance_def conn_getAccountInfo_def conn_getLatestBlockhash_def
  conn_sendTransaction_def conn_sendRawTransaction_def conn_confirmTransaction_def
  conn_confirmTransactionWithin_def conn_fetch_def conn_getSignatureStatus_def sleep_def

lemmas proc_defs = andThen_def tryCatch_def return_def throw_def pure_def

lemma waitForMultisig_numeral:
  "waitForMultisig io p (numeral n) s =
     (case conn_getAccountInfo io p (Some Confirmed) s of
        (Inl e, s') \<Rightarrow> (Inl e, s')
      | (Inr (Some info), s') \<Rightarrow> (Inr (), s')
      | (Inr None, s') \<Rightarrow> waitForMultisig io p (pred_numeral n) (sleep io 2000 s'))"
  by (simp add: numeral_eq_Suc)

lemma ledgerApply_simps:
  "ledgerApply (vaultTransactionCreate bh c m idx eph msg) w = w"
  "ledgerApply (proposalCreate bh c m idx) w = w"
  "ledgerApply (DeserializedTx payload signers) w = w"
  "ledgerApply (multisigCreateTx lib c m2 t i bh) w =
     w\<lparr>accounts := (multisigPdaAt lib c i, \<lparr>owner = SQUADS_PROGRAM_ID, account_data = [0]\<rparr>) # accounts w\<rparr>"
  by (simp_all add: ledgerApply_def vaultTransactionCreate_def proposalCreate_def multisigCreateTx_def Let_def)

lemma accountCount_simps:
  "accountCount (vaultTransactionCreate bh c m idx eph msg) = length (concat (map keys (instructions msg)))"
  "accountCount (proposalCreate bh c m idx) = 0"
  by (simp_all add: accountCount_def vaultTransactionCreate_def proposalCreate_def)

lemma ledgerLib_signAndSerialize:
  "signAndSerialize ledgerLib tx signers =
     (if 26 < accountCount tx then Inl (LibError ''encoding overruns Uint8Array'' ''{}'') else Inr ())"
  by (simp add: signAndSerialize_def ledgerLib_simps)

lemma swapBuilt_accounts: "length (concat (map keys swapBuilt)) = 9"
  by (simp add: swapBuilt_def)

lemma getTransactionPda_u64:
  "0 \<le> idx \<Longrightarrow> idx < 2 ^ 64 \<Longrightarrow> getTransactionPda lib m idx p = Inr (transactionPda lib m idx p)"
  by (simp add: getTransactionPda_def)

lemma swapBundle_built:
  "buildAllInstructions ledgerLib swapBundle = Inr swapBuilt"
  by (simp add: buildAllInstructions_def swapBundle_def swapAccount_def convertSwapInstruction_def
      ledgerLib_simps swapBuilt_def signerMeta_def)

lemma swapBuilt_count:
  "ephemeralSignersNeeded vault alice swapBuilt = 2"
  by (simp add: swapBuilt_def signerMeta_def ephemeralSignersNeeded_def vault_def alice_def)

lemma swapBundle_run:
  "SendRawTransaction
     (vaultTransactionCreate ''blockhash'' alice wallet 5 2
        \<lparr>payerKey = vault, recentBlockhash = ''blockhash'', instructions = swapBuilt\<rparr>) False (Inr ''sig'')
   \<in> set (snd (snd (createSwapProposal ledgerIo ledgerLib alice wallet vault swapBundle 5 (walletLedger, []))))"
  by (simp add: createSwapProposal_def swapBundle_built swapBuilt_count getTransactionPda_u64
      submitVaultTransactionAndProposal_def proc_defs conn_defs Let_def
      ledgerLib_simps ledgerLib_signAndSerialize accountCount_simps swapBuilt_accounts
      waitForMultisig_numeral walletLedger_def ledgerIo_simps emptyLedger_def ledgerSubmit_def ledgerApply_simps
      wallet_def
      cong: if_weak_cong prod.case_cong_weak sum.case_cong_weak option.case_cong_weak)

lemma verifyVisible_numeral:
  "verifyVisible io p (numeral n) s =
     (case conn_getAccountInfo io p (Some Confirmed) s of
        (Inl e, s') \<Rightarrow> (Inl e, s')
      | (Inr (Some info), s') \<Rightarrow> (Inr (), s')
      | (Inr None, s') \<Rightarrow> verifyVisible io p (pred_numeral n) (sleep io 1000 s'))"
  by (simp add: numeral_eq_Suc)

lemma verifyOwnership_numeral:
  "verifyOwnership io p (numeral n) s =
     (case conn_getAccountInfo io p (Some Confirmed) s of
        (Inl e, s') \<Rightarrow> (Inl e, s')
      | (Inr check, s') \<Rightarrow>
          (if ownedBySquads check then (Inr True, s')
           else verifyOwnership io p (pred_numeral n) (sleep io 1000 s')))"
  by (simp add: numeral_eq_Suc)

lemma attemptOutcomes_numeral:
  "attemptOutcomes io lib creator member2 threshold i (numeral n) s =
     (case createSquadAttempt io lib creator member2 threshold i s of
        (Returned r, s') \<Rightarrow> [Returned r]
      | (Skipped, s') \<Rightarrow> Skipped # attemptOutcomes io lib creator member2 threshold (Suc i) (pred_numeral n) s'
      | (Caught e, s') \<Rightarrow> Caught e # attemptOutcomes io lib creator member2 threshold (Suc i) (pred_numeral n) s'
      | (Raised e, s') \<Rightarrow> [Raised e])"
  by (simp add: numeral_eq_Suc)

lemmas squad_run_simps = createSquad_def createSquadLoop.simps createSquadAttempt_def tryCreate_def
  catchCreate_def proc_defs conn_defs verifyVisible_numeral verifyOwnership_numeral
  ledgerIo_simps ledgerSubmit_def ledgerApply_simps emptyLedger_def fundedLedger_def
  ownedBySquads_def MAX_ATTEMPTS_def Let_def

lemma pda_simps:
  "multisigPdaAt ledgerLib c i = PublicKey (''multisig/'' @ concat (map hexByte (createKeySeed ledgerLib c i)))"
  "vaultPdaAt ledgerLib c i = PublicKey (''vault/multisig/'' @ concat (map hexByte (createKeySeed ledgerLib c i)))"
  by (simp_all add: multisigPdaAt_def vaultPdaAt_def createKeyAt_def ledgerLib_simps)

lemmas alice_pda_simps = pda_simps createKeySeed_def ledgerLib_simps hexByte_def alice_def

section \<open>The Transaction Index Allocator returns the first free index\<close>

lemma conn_getAccountInfo_snapshot:
  assumes "getAccountInfo io a c w = (Inr r, w)"
  shows "conn_getAccountInfo io a c (w, tr) = (Inr r, (w, tr @ [GetAccountInfo a c (Inr r)]))"
  using assms by (simp add: conn_getAccountInfo_def await_def)

lemma probe_snapshot:
  assumes reads: "\<And>a c. getAccountInfo io a c w = (Inr (chain a), w)"
      and lo: "0 \<le> n" and hi: "n + 9 < 2 ^ 64"
  shows "(\<exists>k tr'. probeTransactionIndex io lib m n offset (w, tr) = (Inr k, (w, tr'))
            \<and> n + int offset \<le> k \<and> k < n + 10
            \<and> chain (transactionPda lib m k SQUADS_PROGRAM_ID) = None
            \<and> (\<forall>j. n + int offset \<le> j \<and> j < k \<longrightarrow> chain (transactionPda lib m j SQUADS_PROGRAM_ID) \<noteq> None))
       \<or> (\<exists>tr'. probeTransactionIndex io lib m n offset (w, tr)
                  = (Inl (Error ''Could not find free transaction index after 10 attempts''), (w, tr'))
            \<and> (\<forall>j. n + int offset \<le> j \<and> j < n + 10 \<longrightarrow> chain (transactionPda lib m j SQUADS_PROGRAM_ID) \<noteq> None))"
proof (induction "10 - offset" arbitrary: offset tr)
  case 0
  then have "\<not> offset < 10" by simp
  then show ?case by (subst probeTransactionIndex.simps) auto
next
  case (Suc d)
  then have lt: "offset < 10" by simp
  let ?a = "transactionPda lib m (n + int offset) SQUADS_PROGRAM_ID"
  have pda: "getTransactionPda lib m (n + int offset) SQUADS_PROGRAM_ID = Inr ?a"
    using lo hi lt by (simp add: getTransactionPda_def)
  show ?case
  proof (cases "chain ?a")
    case None
    then show ?thesis using lt
      by (subst probeTransactionIndex.simps)
         (auto simp: pda conn_getAccountInfo_snapshot [OF reads] Let_def)
  next
    case (Some acc)
    have d: "d = 10 - Suc offset" using Suc.hyps(2) by simp
    have step: "probeTransactionIndex io lib m n offset (w, tr)
         = probeTransactionIndex io lib m n (Suc offset) (w, tr @ [GetAccountInfo ?a None (Inr (Some acc))])"
      using lt Some
      by (subst probeTransactionIndex.simps)
         (simp add: pda conn_getAccountInfo_snapshot [OF reads] Let_def)
    have low: "\<And>j. n + int offset \<le> j \<Longrightarrow> j < n + int (Suc offset) \<Longrightarrow> j = n + int offset" by simp
    from Suc.hyps(1) [OF d, of "tr @ [GetAccountInfo ?a None (Inr (Some acc))]"]
    show ?thesis
    proof (elim disjE exE conjE)
      fix k tr'
      assume a: "probeTransactionIndex io lib m n (Suc offset) (w, tr @ [GetAccountInfo ?a None (Inr (Some acc))]) = (Inr k, w, tr')"
        "n + int (Suc offset) \<le> k" "k < n + 10"
        "chain (transactionPda lib m k SQUADS_PROGRAM_ID) = None"
        "\<forall>j. n + int (Suc offset) \<le> j \<and> j < k \<longrightarrow> chain (transactionPda lib m j SQUADS_PROGRAM_ID) \<noteq> None"
      have "\<forall>j. n + int offset \<le> j \<and> j < k \<longrightarrow> chain (transactionPda lib m j SQUADS_PROGRAM_ID) \<noteq> None"
      proof (intro allI impI)
        fix j assume j: "n + int offset \<le> j \<and> j < k"
        show "chain (transactionPda lib m j SQUADS_PROGRAM_ID) \<noteq> None"
        proof (cases "j = n + int offset")
          case True then show ?thesis using Some by simp
        next
          case False then show ?thesis using a(5) j by auto
        qed
      qed
      with a step show ?thesis by auto
    next
      fix tr'
      assume a: "probeTransactionIndex io lib m n (Suc offset) (w, tr @ [GetAccountInfo ?a None (Inr (Some acc))])
          = (Inl (Error ''Could not find free transaction index after 10 attempts''), w, tr')"
        "\<forall>j. n + int (Suc offset) \<le> j \<and> j < n + 10 \<longrightarrow> chain (transactionPda lib m j SQUADS_PROGRAM_ID) \<noteq> None"
      have "\<forall>j. n + int offset \<le> j \<and> j < n + 10 \<longrightarrow> chain (transactionPda lib m j SQUADS_PROGRAM_ID) \<noteq> None"
      proof (intro allI impI)
        fix j assume j: "n + int offset \<le> j \<and> j < n + 10"
        show "chain (transactionPda lib m j SQUADS_PROGRAM_ID) \<noteq> None"
        proof (cases "j = n + int offset")
          case True then show ?thesis using Some by simp
        next
          case False then show ?thesis using a(2) j by auto
        qed
      qed
      with a step show ?thesis by auto
    qed
  qed
qed

lemma getNextTransactionIndex_u64_limit:
  assumes reads: "\<And>a c. getAccountInfo io a c w = (Inr (chain a), w)"
      and account: "chain multisigPda = Some info"
      and counter: "multisigFromAccountInfo lib info = Inr c"
      and top: "2 ^ 64 \<le> c + 1"
  shows "fst (getNextTransactionIndex io lib multisigPda (w, tr)) = Inl (External (u64RangeError lib (c + 1)))"
  using account counter top
  by (simp add: getNextTransactionIndex_def andThen_def pure_def getTransactionPda_def
      conn_getAccountInfo_snapshot [OF reads] probeTransactionIndex.simps [of _ _ _ _ 0])

text \<open>
  C2. When the reads of the connection report a fixed chain state without failing, and
  the multisig account exists with counter \<open>c\<close>, where \<open>c + 10\<close> still fits the unsigned
  64 bits of a transaction index, \<open>getNextTransactionIndex\<close> returns the smallest index
  of \<open>c + 1, ..., c + 10\<close> whose vault-transaction address holds no account, that address
  is free in the state the function returns in, and when all ten addresses are occupied
  it throws "Could not find free transaction index after 10 attempts".
\<close>

theorem getNextTransactionIndex_first_free:
  assumes reads: "\<And>a c. getAccountInfo io a c w = (Inr (chain a), w)"
      and account: "chain multisigPda = Some info"
      and counter: "multisigFromAccountInfo lib info = Inr c"
      and u64: "0 \<le> c" "c + 10 < 2 ^ 64"
  shows "(case fst (getNextTransactionIndex io lib multisigPda (w, tr)) of
            Inr k \<Rightarrow>
              c + 1 \<le> k \<and> k \<le> c + 10
              \<and> getTransactionPda lib multisigPda k SQUADS_PROGRAM_ID
                  = Inr (transactionPda lib multisigPda k SQUADS_PROGRAM_ID)
              \<and> chain (transactionPda lib multisigPda k SQUADS_PROGRAM_ID) = None
              \<and> (\<forall>j. c + 1 \<le> j \<and> j < k \<longrightarrow>
                     chain (transactionPda lib multisigPda j SQUADS_PROGRAM_ID) \<noteq> None)
          | Inl e \<Rightarrow>
              e = Error ''Could not find free transaction index after 10 attempts''
              \<and> (\<forall>j. c + 1 \<le> j \<and> j \<le> c + 10 \<longrightarrow>
                     chain (transactionPda lib multisigPda j SQUADS_PROGRAM_ID) \<noteq> None))
         \<and> fst (snd (getNextTransactionIndex io lib multisigPda (w, tr))) = w"
proof -
  let ?tr = "tr @ [GetAccountInfo multisigPda (Some Confirmed) (Inr (Some info))]"
  have unfold: "getNextTransactionIndex io lib multisigPda (w, tr)
                  = probeTransactionIndex io lib multisigPda (c + 1) 0 (w, ?tr)"
    using account counter
    by (simp add: getNextTransactionIndex_def andThen_def pure_def
        conn_getAccountInfo_snapshot [OF reads])
  have lo: "0 \<le> c + 1" and hi: "c + 1 + 9 < 2 ^ 64" using u64 by simp_all
  have pda: "\<And>k. c + 1 \<le> k \<Longrightarrow> k < c + 1 + 10 \<Longrightarrow>
               getTransactionPda lib multisigPda k SQUADS_PROGRAM_ID
                 = Inr (transactionPda lib multisigPda k SQUADS_PROGRAM_ID)"
    using u64 by (simp add: getTransactionPda_def)
  from probe_snapshot [of io w chain "c + 1" lib multisigPda 0 ?tr, OF reads lo hi]
  show ?thesis unfolding unfold using pda by (elim disjE exE conjE) auto
qed

lemma busyLedger_run:
  "getNextTransactionIndex ledgerIo ledgerLib wallet (busyLedger, [])
     = (Inr 7,
        (busyLedger,
         [GetAccountInfo wallet (Some Confirmed) (Inr (Some \<lparr>owner = SQUADS_PROGRAM_ID, account_data = [4]\<rparr>)),
          GetAccountInfo (transactionPda ledgerLib wallet 5 SQUADS_PROGRAM_ID) None (Inr (Some occupied)),
          GetAccountInfo (transactionPda ledgerLib wallet 6 SQUADS_PROGRAM_ID) None (Inr (Some occupied)),
          GetAccountInfo (transactionPda ledgerLib wallet 7 SQUADS_PROGRAM_ID) None (Inr None)]))"
  by (simp add: getNextTransactionIndex_def probeTransactionIndex.simps proc_defs conn_defs
      getTransactionPda_def
      ledgerIo_simps ledgerLib_simps busyLedger_def emptyLedger_def wallet_def occupied_def
      hexByte_def Let_def
      cong: if_weak_cong prod.case_cong_weak sum.case_cong_weak option.case_cong_weak)

theorem getNextTransactionIndex_first_free_witness:
  "fst (getNextTransactionIndex ledgerIo ledgerLib wallet (busyLedger, [])) = Inr 7
   \<and> map_of (accounts busyLedger) (transactionPda ledgerLib wallet 5 SQUADS_PROGRAM_ID) \<noteq> None
   \<and> map_of (accounts busyLedger) (transactionPda ledgerLib wallet 6 SQUADS_PROGRAM_ID) \<noteq> None
   \<and> map_of (accounts busyLedger) (transactionPda ledgerLib wallet 7 SQUADS_PROGRAM_ID) = None
   \<and> getTransactionPda ledgerLib wallet 7 SQUADS_PROGRAM_ID
       = Inr (transactionPda ledgerLib wallet 7 SQUADS_PROGRAM_ID)
   \<and> fst (snd (getNextTransactionIndex ledgerIo ledgerLib wallet (busyLedger, []))) = busyLedger"
proof -
  have reads: "\<And>a c. getAccountInfo ledgerIo a c busyLedger = (Inr (map_of (accounts busyLedger) a), busyLedger)"
    by (simp add: ledgerIo_simps)
  have account: "map_of (accounts busyLedger) wallet = Some \<lparr>owner = SQUADS_PROGRAM_ID, account_data = [4]\<rparr>"
    by (simp add: busyLedger_def emptyLedger_def)
  have counter: "multisigFromAccountInfo ledgerLib \<lparr>owner = SQUADS_PROGRAM_ID, account_data = [4]\<rparr> = Inr 4"
    by (simp add: ledgerLib_simps)
  have u64: "(0::int) \<le> 4" "(4::int) + 10 < 2 ^ 64" by simp_all
  have run: "fst (getNextTransactionIndex ledgerIo ledgerLib wallet (busyLedger, [])) = Inr 7"
    by (simp add: busyLedger_run)
  from getNextTransactionIndex_first_free
          [of ledgerIo busyLedger "map_of (accounts busyLedger)" wallet _ ledgerLib 4 "[]",
           OF reads account counter u64]
  have t: "4 + 1 \<le> (7::int) \<and> (7::int) \<le> 4 + 10
         \<and> getTransactionPda ledgerLib wallet 7 SQUADS_PROGRAM_ID
             = Inr (transactionPda ledgerLib wallet 7 SQUADS_PROGRAM_ID)
         \<and> map_of (accounts busyLedger) (transactionPda ledgerLib wallet 7 SQUADS_PROGRAM_ID) = None
         \<and> (\<forall>j. 4 + 1 \<le> j \<and> j < 7 \<longrightarrow>
               map_of (accounts busyLedger) (transactionPda ledgerLib wallet j SQUADS_PROGRAM_ID) \<noteq> None)"
    and w: "fst (snd (getNextTransactionIndex ledgerIo ledgerLib wallet (busyLedger, []))) = busyLedger"
    unfolding run by simp_all
  from t have occ: "\<forall>j. 4 + 1 \<le> j \<and> j < 7 \<longrightarrow>
               map_of (accounts busyLedger) (transactionPda ledgerLib wallet j SQUADS_PROGRAM_ID) \<noteq> None"
    by (elim conjE)
  from occ [rule_format, of 5] occ [rule_format, of 6] t w run
  show ?thesis by simp
qed

section \<open>What a run appends to the trace\<close>

lemma awaitE:
  assumes "await f ev s = (r, s')"
  obtains r0 where "r = map_sum External id r0" "f (fst s) = (r0, fst s')" "snd s' = snd s @ [ev r0]"
  using assms by (auto simp: await_def split: prod.splits)

lemma conn_getBalanceE:
  assumes "conn_getBalance io a s = (r, s')"
  obtains r0 where "r = map_sum External id r0" "getBalance io a (fst s) = (r0, fst s')"
    "snd s' = snd s @ [GetBalance a r0]"
  using assms unfolding conn_getBalance_def by (rule awaitE)

lemma conn_getAccountInfoE:
  assumes "conn_getAccountInfo io a c s = (r, s')"
  obtains r0 where "r = map_sum External id r0" "getAccountInfo io a c (fst s) = (r0, fst s')"
    "snd s' = snd s @ [GetAccountInfo a c r0]"
  using assms unfolding conn_getAccountInfo_def by (rule awaitE)

lemma conn_getLatestBlockhashE:
  assumes "conn_getLatestBlockhash io s = (r, s')"
  obtains r0 where "r = map_sum External id r0" "getLatestBlockhash io (fst s) = (r0, fst s')"
    "snd s' = snd s @ [GetLatestBlockhash r0]"
  using assms unfolding conn_getLatestBlockhash_def by (rule awaitE)

lemma conn_sendTransactionE:
  assumes "conn_sendTransaction io tx sp s = (r, s')"
  obtains r0 where "r = map_sum External id r0" "sendTransaction io tx sp (fst s) = (r0, fst s')"
    "snd s' = snd s @ [SendTransaction tx sp r0]"
  using assms unfolding conn_sendTransaction_def by (rule awaitE)

lemma conn_sendRawTransactionE:
  assumes "conn_sendRawTransaction io tx sp s = (r, s')"
  obtains r0 where "r = map_sum External id r0" "sendRawTransaction io tx sp (fst s) = (r0, fst s')"
    "snd s' = snd s @ [SendRawTransaction tx sp r0]"
  using assms unfolding conn_sendRawTransaction_def by (rule awaitE)

lemma conn_confirmTransactionE:
  assumes "conn_confirmTransaction io sig s = (r, s')"
  obtains r0 where "r = map_sum External id r0" "confirmTransaction io sig (fst s) = (r0, fst s')"
    "snd s' = snd s @ [ConfirmTransaction sig r0]"
  using assms unfolding conn_confirmTransaction_def by (rule awaitE)

lemma conn_getSignatureStatusE:
  assumes "conn_getSignatureStatus io sig s = (r, s')"
  obtains r0 where "r = map_sum External id r0" "getSignatureStatus io sig (fst s) = (r0, fst s')"
    "snd s' = snd s @ [GetSignatureStatus sig r0]"
  using assms unfolding conn_getSignatureStatus_def by (rule awaitE)

lemma conn_fetchE:
  assumes "conn_fetch io url body s = (r, s')"
  obtains r0 where "r = map_sum External id r0" "fetch io url body (fst s) = (r0, fst s')"
    "snd s' = snd s @ [Fetch url body r0]"
  using assms unfolding conn_fetch_def by (rule awaitE)

lemmas connE = conn_getBalanceE conn_getAccountInfoE conn_getLatestBlockhashE conn_sendTransactionE
  conn_sendRawTransactionE conn_confirmTransactionE conn_getSignatureStatusE conn_fetchE



lemma emitsI:
  assumes "\<And>s. \<exists>evs. snd (snd (m s)) = snd s @ evs \<and> set evs \<subseteq> E"
  shows "emits E m"
  using assms by (simp add: emits_def)

lemma emitsE:
  assumes "emits E m" "m s = (r, s')"
  obtains evs where "snd s' = snd s @ evs" "set evs \<subseteq> E"
  using assms unfolding emits_def by (metis snd_conv)

lemma emits_verifyVisible:
  assumes "\<And>c r. GetAccountInfo p c r \<in> E" "\<And>ms. SetTimeout ms \<in> E"
  shows "emits E (verifyVisible io p n)"
proof (induction n)
  case 0
  show ?case by (rule emitsI) simp
next
  case (Suc n)
  show ?case
  proof (rule emitsI)
    fix s
    obtain r s1 where step: "conn_getAccountInfo io p (Some Confirmed) s = (r, s1)"
      by (cases "conn_getAccountInfo io p (Some Confirmed) s")
    obtain r2 s2 where rec: "verifyVisible io p n (sleep io 1000 s1) = (r2, s2)"
      by (cases "verifyVisible io p n (sleep io 1000 s1)")
    from Suc rec obtain evs where evs: "snd s2 = snd (sleep io 1000 s1) @ evs" "set evs \<subseteq> E"
      by (rule emitsE)
    from step evs rec assms
    show "\<exists>evs. snd (snd (verifyVisible io p (Suc n) s)) = snd s @ evs \<and> set evs \<subseteq> E"
      by (auto simp: sleep_def split: sum.splits option.splits elim!: conn_getAccountInfoE)
  qed
qed

lemma emits_verifyOwnership:
  assumes "\<And>c r. GetAccountInfo p c r \<in> E" "\<And>ms. SetTimeout ms \<in> E"
  shows "emits E (verifyOwnership io p n)"
proof (induction n)
  case 0
  show ?case by (rule emitsI) simp
next
  case (Suc n)
  show ?case
  proof (rule emitsI)
    fix s
    obtain r s1 where step: "conn_getAccountInfo io p (Some Confirmed) s = (r, s1)"
      by (cases "conn_getAccountInfo io p (Some Confirmed) s")
    obtain r2 s2 where rec: "verifyOwnership io p n (sleep io 1000 s1) = (r2, s2)"
      by (cases "verifyOwnership io p n (sleep io 1000 s1)")
    from Suc rec obtain evs where evs: "snd s2 = snd (sleep io 1000 s1) @ evs" "set evs \<subseteq> E"
      by (rule emitsE)
    from step evs rec assms
    show "\<exists>evs. snd (snd (verifyOwnership io p (Suc n) s)) = snd s @ evs \<and> set evs \<subseteq> E"
      by (auto simp: sleep_def split: sum.splits option.splits elim!: conn_getAccountInfoE)
  qed
qed

lemma emits_tryCreate:
  assumes "\<And>a c r. GetAccountInfo a c r \<in> E" "\<And>ms. SetTimeout ms \<in> E"
    "\<And>r. GetLatestBlockhash r \<in> E" "\<And>sig r. ConfirmTransaction sig r \<in> E"
    "\<And>bh r. SendTransaction (multisigCreateTx lib creator member2 threshold i bh) False r \<in> E"
  shows "emits E (tryCreate io lib creator member2 threshold i)"
proof (rule emitsI)
  fix s
  have "emits E (verifyVisible io (multisigPdaAt lib creator i) 10)"
    by (rule emits_verifyVisible) (simp_all add: assms)
  note vv = emitsE [OF this]
  show "\<exists>evs. snd (snd (tryCreate io lib creator member2 threshold i s)) = snd s @ evs \<and> set evs \<subseteq> E"
    using assms
    by (auto simp: tryCreate_def proc_defs split: prod.splits sum.splits option.splits
        elim!: connE vv)
qed


lemma emitsD:
  "emits E m \<Longrightarrow> \<exists>evs. snd (snd (m s)) = snd s @ evs \<and> set evs \<subseteq> E"
  unfolding emits_def by blast

lemma emits_catchCreate:
  assumes "\<And>a c r. GetAccountInfo a c r \<in> E" "\<And>ms. SetTimeout ms \<in> E"
  shows "emits E (catchCreate io lib creator i e)"
proof (rule emitsI)
  fix s
  have "emits E (verifyOwnership io (multisigPdaAt lib creator i) 5)"
    by (rule emits_verifyOwnership) (simp_all add: assms)
  from emitsD [OF this, of s]
  show "\<exists>evs. snd (snd (catchCreate io lib creator i e s)) = snd s @ evs \<and> set evs \<subseteq> E"
    by (auto simp: catchCreate_def Let_def split: prod.splits sum.splits)
qed

lemma emits_createSquadAttempt:
  assumes "\<And>a c r. GetAccountInfo a c r \<in> E" "\<And>ms. SetTimeout ms \<in> E"
    "\<And>r. GetLatestBlockhash r \<in> E" "\<And>sig r. ConfirmTransaction sig r \<in> E"
    "\<And>bh r. SendTransaction (multisigCreateTx lib creator member2 threshold i bh) False r \<in> E"
  shows "emits E (createSquadAttempt io lib creator member2 threshold i)"
proof (rule emitsI)
  fix s
  obtain r0 s1 where head: "conn_getAccountInfo io (multisigPdaAt lib creator i) None s = (r0, s1)"
    by (cases "conn_getAccountInfo io (multisigPdaAt lib creator i) None s")
  then obtain r0' where s1: "snd s1 = snd s @ [GetAccountInfo (multisigPdaAt lib creator i) None r0']"
    by (rule conn_getAccountInfoE)
  obtain r1 s2 where body: "tryCreate io lib creator member2 threshold i s1 = (r1, s2)"
    by (cases "tryCreate io lib creator member2 threshold i s1")
  have "emits E (tryCreate io lib creator member2 threshold i)"
    by (rule emits_tryCreate) (simp_all add: assms)
  from emitsD [OF this, of s1] body
  obtain evs2 where s2: "snd s2 = snd s1 @ evs2" "set evs2 \<subseteq> E" by auto
  have "\<And>e. emits E (catchCreate io lib creator i e)"
    by (rule emits_catchCreate) (simp_all add: assms)
  from emitsD [OF this, of _ s2]
  have cc: "\<And>e. \<exists>evs. snd (snd (catchCreate io lib creator i e s2)) = snd s2 @ evs \<and> set evs \<subseteq> E" .
  show "\<exists>evs. snd (snd (createSquadAttempt io lib creator member2 threshold i s)) = snd s @ evs \<and> set evs \<subseteq> E"
  proof (cases r1)
    case (Inl e)
    from cc [of e] obtain evs3 where "snd (snd (catchCreate io lib creator i e s2)) = snd s2 @ evs3" "set evs3 \<subseteq> E"
      by blast
    with head s1 body s2 Inl assms(1) show ?thesis
      by (auto simp: createSquadAttempt_def split: sum.splits)
  next
    case (Inr res)
    with head s1 body s2 assms(1) show ?thesis
      by (auto simp: createSquadAttempt_def split: sum.splits)
  qed
qed

lemma emits_createSquadLoop:
  assumes "\<And>a c r. GetAccountInfo a c r \<in> E" "\<And>ms. SetTimeout ms \<in> E"
    "\<And>r. GetLatestBlockhash r \<in> E" "\<And>sig r. ConfirmTransaction sig r \<in> E"
    "\<And>k bh r. k < MAX_ATTEMPTS \<Longrightarrow>
       SendTransaction (multisigCreateTx lib creator member2 threshold k bh) False r \<in> E"
  shows "emits E (createSquadLoop io lib creator member2 threshold i lastError)"
proof (induction "MAX_ATTEMPTS - i" arbitrary: i lastError)
  case 0
  then have "\<not> i < MAX_ATTEMPTS" by simp
  then show ?case by (intro emitsI) (simp add: createSquadLoop.simps)
next
  case (Suc d)
  then have lt: "i < MAX_ATTEMPTS" and d: "d = MAX_ATTEMPTS - Suc i" by simp_all
  have at: "emits E (createSquadAttempt io lib creator member2 threshold i)"
    by (rule emits_createSquadAttempt) (simp_all add: assms lt)
  show ?case
  proof (rule emitsI)
    fix s
    obtain oc s1 where step: "createSquadAttempt io lib creator member2 threshold i s = (oc, s1)"
      by (cases "createSquadAttempt io lib creator member2 threshold i s")
    from emitsD [OF at, of s] step obtain evs1 where s1: "snd s1 = snd s @ evs1" "set evs1 \<subseteq> E"
      by auto
    from emitsD [OF Suc.hyps(1) [OF d], of _ s1]
    have rec: "\<And>le. \<exists>evs. snd (snd (createSquadLoop io lib creator member2 threshold (Suc i) le s1))
                  = snd s1 @ evs \<and> set evs \<subseteq> E" .
    show "\<exists>evs. snd (snd (createSquadLoop io lib creator member2 threshold i lastError s)) = snd s @ evs \<and> set evs \<subseteq> E"
    proof (cases oc)
      case (Returned res)
      with lt step s1 show ?thesis by (subst createSquadLoop.simps) simp
    next
      case Skipped
      from rec [of lastError] obtain evs where "snd (snd (createSquadLoop io lib creator member2 threshold (Suc i) lastError s1))
                  = snd s1 @ evs" "set evs \<subseteq> E" by blast
      with Skipped lt step s1 show ?thesis by (subst createSquadLoop.simps) simp
    next
      case (Caught e)
      from rec [of "Some e"] obtain evs where "snd (snd (createSquadLoop io lib creator member2 threshold (Suc i) (Some e) s1))
                  = snd s1 @ evs" "set evs \<subseteq> E" by blast
      with Caught lt step s1 show ?thesis by (subst createSquadLoop.simps) simp
    next
      case (Raised e)
      with lt step s1 show ?thesis by (subst createSquadLoop.simps) simp
    qed
  qed
qed

section \<open>The create keys of \<open>createSquad\<close>\<close>

lemma createKeySeed_byte:
  assumes "length (toBytes lib (publicKey creator)) = 32" "j < 32"
  shows "createKeySeed lib creator i ! j =
           (if j = i mod 32 then toBytes lib (publicKey creator) ! j XOR 0xFF
            else toBytes lib (publicKey creator) ! j)"
  using assms by (simp add: createKeySeed_def Let_def nth_list_update)

lemma createSquadAttempt_Returned:
  assumes "createSquadAttempt io lib creator member2 threshold i s = (Returned r, s')"
  shows "squad_multisigPda r = multisigPdaAt lib creator i \<and> squad_vaultPda r = vaultPdaAt lib creator i"
  using assms
  by (auto simp: createSquadAttempt_def tryCreate_def catchCreate_def proc_defs Let_def
      split: prod.splits sum.splits option.splits if_splits)

text \<open>
  C4. For an owner key of 32 bytes and an attempt index \<open>i\<close> below the bound, the seed of
  the create key of attempt \<open>i\<close> is the owner's bytes with the byte at \<open>i mod 32\<close> XOR-ed
  with \<open>0xFF\<close> and every other byte unchanged; it depends on the owner's public key and
  \<open>i\<close> only; every transaction attempt \<open>i\<close> of \<open>createSquad\<close> sends is the multisig creation
  with the key derived from that seed as create key and co-signer, for the multisig
  address derived from that key; and an attempt that returns, returns that address.
\<close>

theorem createKey_derivation:
  assumes len: "length (toBytes lib (publicKey creator)) = 32" and i: "i < MAX_ATTEMPTS"
  shows "length (createKeySeed lib creator i) = 32
       \<and> (\<forall>j<32. createKeySeed lib creator i ! j =
              (if j = i mod 32 then toBytes lib (publicKey creator) ! j XOR 0xFF
               else toBytes lib (publicKey creator) ! j))
       \<and> (\<forall>creator'. publicKey creator' = publicKey creator \<longrightarrow>
              createKeySeed lib creator' i = createKeySeed lib creator i)
       \<and> (\<forall>tx sp r. SendTransaction tx sp r
                       \<in> set (snd (snd (createSquadAttempt io lib creator member2 threshold i (w, []))))
              \<longrightarrow> (\<exists>a. tx = MultisigCreateTx a
                       \<and> mc_createKey a = publicKey (fromSeed lib (createKeySeed lib creator i))
                       \<and> mc_multisig a = getMultisigPda lib (mc_createKey a) SQUADS_PROGRAM_ID
                       \<and> mc_signers a = [publicKey creator, mc_createKey a]))
       \<and> (\<forall>res. fst (createSquadAttempt io lib creator member2 threshold i (w, [])) = Returned res
              \<longrightarrow> squad_multisigPda res
                    = getMultisigPda lib (publicKey (fromSeed lib (createKeySeed lib creator i)))
                        SQUADS_PROGRAM_ID)"
proof (intro conjI)
  show "length (createKeySeed lib creator i) = 32"
    using len by (simp add: createKeySeed_def Let_def)
  show "\<forall>j<32. createKeySeed lib creator i ! j =
              (if j = i mod 32 then toBytes lib (publicKey creator) ! j XOR 0xFF
               else toBytes lib (publicKey creator) ! j)"
    using len by (simp add: createKeySeed_byte)
  show "\<forall>creator'. publicKey creator' = publicKey creator \<longrightarrow>
              createKeySeed lib creator' i = createKeySeed lib creator i"
    by (simp add: createKeySeed_def)
next
  let ?E = "{ev. \<forall>tx sp r. ev = SendTransaction tx sp r \<longrightarrow>
               (\<exists>bh. tx = multisigCreateTx lib creator member2 threshold i bh)}"
  have "emits ?E (createSquadAttempt io lib creator member2 threshold i)"
    by (rule emits_createSquadAttempt) auto
  then obtain evs where evs:
    "snd (snd (createSquadAttempt io lib creator member2 threshold i (w, []))) = snd (w, []) @ evs"
    "set evs \<subseteq> ?E"
    unfolding emits_def by blast
  show "\<forall>tx sp r. SendTransaction tx sp r
                       \<in> set (snd (snd (createSquadAttempt io lib creator member2 threshold i (w, []))))
              \<longrightarrow> (\<exists>a. tx = MultisigCreateTx a
                       \<and> mc_createKey a = publicKey (fromSeed lib (createKeySeed lib creator i))
                       \<and> mc_multisig a = getMultisigPda lib (mc_createKey a) SQUADS_PROGRAM_ID
                       \<and> mc_signers a = [publicKey creator, mc_createKey a])"
  proof (intro allI impI)
    fix tx sp r
    assume "SendTransaction tx sp r
              \<in> set (snd (snd (createSquadAttempt io lib creator member2 threshold i (w, []))))"
    with evs have "SendTransaction tx sp r \<in> ?E" by auto
    then obtain bh where "tx = multisigCreateTx lib creator member2 threshold i bh" by blast
    then show "\<exists>a. tx = MultisigCreateTx a
                       \<and> mc_createKey a = publicKey (fromSeed lib (createKeySeed lib creator i))
                       \<and> mc_multisig a = getMultisigPda lib (mc_createKey a) SQUADS_PROGRAM_ID
                       \<and> mc_signers a = [publicKey creator, mc_createKey a]"
      by (simp add: multisigCreateTx_def Let_def multisigPdaAt_def createKeyAt_def)
  qed
next
  show "\<forall>res. fst (createSquadAttempt io lib creator member2 threshold i (w, [])) = Returned res
              \<longrightarrow> squad_multisigPda res
                    = getMultisigPda lib (publicKey (fromSeed lib (createKeySeed lib creator i)))
                        SQUADS_PROGRAM_ID"
  proof (intro allI impI)
    fix res
    assume a: "fst (createSquadAttempt io lib creator member2 threshold i (w, [])) = Returned res"
    then obtain s' where "createSquadAttempt io lib creator member2 threshold i (w, []) = (Returned res, s')"
      by (cases "createSquadAttempt io lib creator member2 threshold i (w, [])") simp
    from createSquadAttempt_Returned [OF this]
    show "squad_multisigPda res
            = getMultisigPda lib (publicKey (fromSeed lib (createKeySeed lib creator i))) SQUADS_PROGRAM_ID"
      by (simp add: multisigPdaAt_def createKeyAt_def)
  qed
qed

lemma funded_attempt_sends:
  "\<exists>tx sp r. SendTransaction tx sp r
      \<in> set (snd (snd (createSquadAttempt ledgerIo ledgerLib alice bob 1 3 (fundedLedger, []))))"
  by (simp add: squad_run_simps) blast

lemma funded_attempt_returns:
  "\<exists>res. fst (createSquadAttempt ledgerIo ledgerLib alice bob 1 3 (fundedLedger, [])) = Returned res"
  by (simp add: squad_run_simps)

theorem createKey_derivation_witness:
  "length (createKeySeed ledgerLib alice 3) = 32
   \<and> createKeySeed ledgerLib alice 3 ! 3 = toBytes ledgerLib (publicKey alice) ! 3 XOR 0xFF
   \<and> createKeySeed ledgerLib alice 3 ! 4 = toBytes ledgerLib (publicKey alice) ! 4
   \<and> (\<exists>a sp r. SendTransaction (MultisigCreateTx a) sp r
                   \<in> set (snd (snd (createSquadAttempt ledgerIo ledgerLib alice bob 1 3 (fundedLedger, []))))
          \<and> mc_createKey a = publicKey (fromSeed ledgerLib (createKeySeed ledgerLib alice 3))
          \<and> mc_multisig a = getMultisigPda ledgerLib (mc_createKey a) SQUADS_PROGRAM_ID
          \<and> mc_signers a = [publicKey alice, mc_createKey a])
   \<and> (\<exists>res. fst (createSquadAttempt ledgerIo ledgerLib alice bob 1 3 (fundedLedger, [])) = Returned res
          \<and> squad_multisigPda res
                = getMultisigPda ledgerLib (publicKey (fromSeed ledgerLib (createKeySeed ledgerLib alice 3)))
                    SQUADS_PROGRAM_ID)"
proof -
  have len: "length (toBytes ledgerLib (publicKey alice)) = 32"
    by (simp add: ledgerLib_simps alice_def)
  have i: "(3::nat) < MAX_ATTEMPTS"
    by (simp add: MAX_ATTEMPTS_def)
  note t = createKey_derivation [OF len i, of ledgerIo bob 1 fundedLedger]
  from t have bytes: "\<forall>j<32. createKeySeed ledgerLib alice 3 ! j =
          (if j = 3 mod 32 then toBytes ledgerLib (publicKey alice) ! j XOR 0xFF
           else toBytes ledgerLib (publicKey alice) ! j)"
    by (elim conjE)
  have b3: "createKeySeed ledgerLib alice 3 ! 3 = toBytes ledgerLib (publicKey alice) ! 3 XOR 0xFF"
    using bytes [rule_format, of 3] by simp
  have b4: "createKeySeed ledgerLib alice 3 ! 4 = toBytes ledgerLib (publicKey alice) ! 4"
    using bytes [rule_format, of 4] by simp
  from t funded_attempt_sends funded_attempt_returns b3 b4
  show ?thesis by (elim conjE exE) blast
qed

section \<open>The ephemeral signer count\<close>

lemma keySigners_Nil: "keySigners v c [] = {}"
  by (simp add: keySigners_def)

lemma keySigners_Cons:
  "keySigners v c (k # ks) =
     (if isSigner k \<and> pubkey k \<noteq> v \<and> pubkey k \<noteq> publicKey c
      then insert (toBase58 (pubkey k)) (keySigners v c ks) else keySigners v c ks)"
  by (auto simp: keySigners_def)

lemma finite_keySigners: "finite (keySigners v c ks)"
  by (induction ks) (simp_all add: keySigners_Nil keySigners_Cons)

lemma countKeys_eq:
  "finite seen \<Longrightarrow>
   countKeys v c ks (n, seen) = (n + card (keySigners v c ks - seen), seen \<union> keySigners v c ks)"
proof (induction ks arbitrary: n seen)
  case Nil
  then show ?case by (simp add: keySigners_Nil)
next
  case (Cons k ks)
  let ?x = "toBase58 (pubkey k)"
  show ?case
  proof (cases "isSigner k \<and> pubkey k \<noteq> v \<and> pubkey k \<noteq> publicKey c")
    case False
    then show ?thesis using Cons by (auto simp: keySigners_Cons Let_def)
  next
    case True
    show ?thesis
    proof (cases "?x \<in> seen")
      case in_seen: True
      have "insert ?x (keySigners v c ks) - seen = keySigners v c ks - seen"
        using in_seen by auto
      moreover have "seen \<union> insert ?x (keySigners v c ks) = seen \<union> keySigners v c ks"
        using in_seen by auto
      ultimately show ?thesis using True in_seen Cons
        by (simp add: keySigners_Cons Let_def)
    next
      case False
      have fin: "finite (insert ?x seen)" using Cons.prems by simp
      have "insert ?x (keySigners v c ks) - seen = insert ?x (keySigners v c ks - insert ?x seen)"
        using False by auto
      moreover have "?x \<notin> keySigners v c ks - insert ?x seen" by simp
      moreover have "finite (keySigners v c ks - insert ?x seen)"
        using finite_keySigners by simp
      ultimately have "card (insert ?x (keySigners v c ks) - seen)
                         = Suc (card (keySigners v c ks - insert ?x seen))"
        by simp
      moreover have "seen \<union> insert ?x (keySigners v c ks) = insert ?x seen \<union> keySigners v c ks"
        by auto
      ultimately show ?thesis using True False Cons.IH [OF fin]
        by (simp add: keySigners_Cons Let_def)
    qed
  qed
qed

lemma ephemeralSigners_Nil: "ephemeralSigners v c [] = {}"
  by (simp add: ephemeralSigners_def)

lemma ephemeralSigners_Cons:
  "ephemeralSigners v c (ix # ixs) = keySigners v c (keys ix) \<union> ephemeralSigners v c ixs"
  by (auto simp: ephemeralSigners_def keySigners_def)

lemma finite_ephemeralSigners: "finite (ephemeralSigners v c ixs)"
  by (induction ixs) (simp_all add: ephemeralSigners_Nil ephemeralSigners_Cons finite_keySigners)

lemma countSigners_eq:
  "finite seen \<Longrightarrow>
   countSigners v c ixs (n, seen)
     = (n + card (ephemeralSigners v c ixs - seen), seen \<union> ephemeralSigners v c ixs)"
proof (induction ixs arbitrary: n seen)
  case Nil
  then show ?case by (simp add: ephemeralSigners_Nil)
next
  case (Cons ix ixs)
  let ?K = "keySigners v c (keys ix)"
  let ?R = "ephemeralSigners v c ixs"
  have fin: "finite (seen \<union> ?K)" using Cons.prems finite_keySigners by simp
  have disj: "(?K - seen) \<inter> (?R - (seen \<union> ?K)) = {}" by auto
  have un: "(?K \<union> ?R) - seen = (?K - seen) \<union> (?R - (seen \<union> ?K))" by auto
  have "card ((?K \<union> ?R) - seen) = card (?K - seen) + card (?R - (seen \<union> ?K))"
    unfolding un
    by (rule card_Un_disjoint) (simp_all add: finite_keySigners finite_ephemeralSigners disj)
  then show ?case
    using Cons.IH [OF fin] Cons.prems
    by (simp add: countKeys_eq ephemeralSigners_Cons Un_assoc)
qed

lemma ephemeralSignersNeeded_card:
  "ephemeralSignersNeeded v c ixs = card (ephemeralSigners v c ixs)"
  by (simp add: ephemeralSignersNeeded_def countSigners_eq)

lemma ephemeralSigners_image:
  "ephemeralSigners v c ixs = toBase58 `
     {pubkey k | k ix. ix \<in> set ixs \<and> k \<in> set (keys ix) \<and> isSigner k \<and> pubkey k \<noteq> v \<and> pubkey k \<noteq> publicKey c}"
  by (auto simp: ephemeralSigners_def)

lemma inj_toBase58: "inj toBase58"
  by (rule injI) (simp add: PublicKey.expand)

lemma ephemeralSignersNeeded_distinct_keys:
  "ephemeralSignersNeeded v c ixs = card
     {pubkey k | k ix. ix \<in> set ixs \<and> k \<in> set (keys ix) \<and> isSigner k \<and> pubkey k \<noteq> v \<and> pubkey k \<noteq> publicKey c}"
  unfolding ephemeralSignersNeeded_card ephemeralSigners_image
  by (rule card_image) (rule inj_on_subset [OF inj_toBase58], simp)

section \<open>The swap path declares the ephemeral signers it counted\<close>

lemma emits_waitForMultisig:
  assumes "\<And>c r. GetAccountInfo p c r \<in> E" "\<And>ms. SetTimeout ms \<in> E"
  shows "emits E (waitForMultisig io p n)"
proof (induction n)
  case 0
  show ?case by (rule emitsI) simp
next
  case (Suc n)
  show ?case
  proof (rule emitsI)
    fix s
    obtain r s1 where step: "conn_getAccountInfo io p (Some Confirmed) s = (r, s1)"
      by (cases "conn_getAccountInfo io p (Some Confirmed) s")
    obtain r2 s2 where rec: "waitForMultisig io p n (sleep io 2000 s1) = (r2, s2)"
      by (cases "waitForMultisig io p n (sleep io 2000 s1)")
    from Suc rec obtain evs where evs: "snd s2 = snd (sleep io 2000 s1) @ evs" "set evs \<subseteq> E"
      by (rule emitsE)
    from step evs rec assms
    show "\<exists>evs. snd (snd (waitForMultisig io p (Suc n) s)) = snd s @ evs \<and> set evs \<subseteq> E"
      by (auto simp: sleep_def split: sum.splits option.splits elim!: conn_getAccountInfoE)
  qed
qed

lemma emits_submit:
  assumes "\<And>r. GetLatestBlockhash r \<in> E" "\<And>sig r. ConfirmTransaction sig r \<in> E"
    "\<And>bh r. SendRawTransaction (vaultTransactionCreate bh creator m idx eph msg) False r \<in> E"
    "\<And>bh r. SendRawTransaction (proposalCreate bh creator m idx) False r \<in> E"
  shows "emits E (submitVaultTransactionAndProposal io lib creator m idx eph msg)"
proof (rule emitsI)
  fix s
  show "\<exists>evs. snd (snd (submitVaultTransactionAndProposal io lib creator m idx eph msg s)) = snd s @ evs \<and> set evs \<subseteq> E"
    using assms
    by (auto simp: submitVaultTransactionAndProposal_def proc_defs Let_def
        split: prod.splits sum.splits elim!: connE)
qed

lemma emits_createSwapProposal:
  assumes "\<And>a c r. GetAccountInfo a c r \<in> E" "\<And>ms. SetTimeout ms \<in> E"
    "\<And>r. GetLatestBlockhash r \<in> E" "\<And>sig r. ConfirmTransaction sig r \<in> E"
    "\<And>bh r. SendRawTransaction (proposalCreate bh creator m idx) False r \<in> E"
    "\<And>all bh bh' r. buildAllInstructions lib si = Inr all \<Longrightarrow>
        SendRawTransaction (vaultTransactionCreate bh' creator m idx (ephemeralSignersNeeded v creator all)
          \<lparr>payerKey = v, recentBlockhash = bh, instructions = all\<rparr>) False r \<in> E"
  shows "emits E (createSwapProposal io lib creator m v si idx)"
proof (rule emitsI)
  fix s
  obtain r1 s1 where w: "waitForMultisig io m 15 s = (r1, s1)"
    by (cases "waitForMultisig io m 15 s")
  have "emits E (waitForMultisig io m 15)"
    by (rule emits_waitForMultisig) (simp_all add: assms)
  from emitsD [OF this, of s] w obtain evs1 where s1: "snd s1 = snd s @ evs1" "set evs1 \<subseteq> E" by auto
  show "\<exists>evs. snd (snd (createSwapProposal io lib creator m v si idx s)) = snd s @ evs \<and> set evs \<subseteq> E"
  proof (cases "buildAllInstructions lib si")
    case (Inl e)
    with w s1 show ?thesis
      by (auto simp: createSwapProposal_def proc_defs split: sum.splits)
  next
    case (Inr all)
    obtain r2 s2 where b: "conn_getLatestBlockhash io s1 = (r2, s2)"
      by (cases "conn_getLatestBlockhash io s1")
    then obtain r2' where s2: "snd s2 = snd s1 @ [GetLatestBlockhash r2']"
      by (rule conn_getLatestBlockhashE)
    have "\<And>bh. emits E (submitVaultTransactionAndProposal io lib creator m idx (ephemeralSignersNeeded v creator all)
          \<lparr>payerKey = v, recentBlockhash = bh, instructions = all\<rparr>)"
      by (rule emits_submit) (simp_all add: assms Inr)
    from emitsD [OF this, of _ s2]
    have sub: "\<And>bh. \<exists>evs. snd (snd (submitVaultTransactionAndProposal io lib creator m idx (ephemeralSignersNeeded v creator all)
          \<lparr>payerKey = v, recentBlockhash = bh, instructions = all\<rparr> s2)) = snd s2 @ evs \<and> set evs \<subseteq> E" .
    show ?thesis
    proof (cases r1)
      case a: (Inl e)
      with w s1 show ?thesis by (simp add: createSwapProposal_def proc_defs)
    next
      case a: (Inr u)
      show ?thesis
      proof (cases r2)
        case (Inl e)
        with a w s1 b s2 Inr assms(3) show ?thesis by (simp add: createSwapProposal_def proc_defs)
      next
        case c: (Inr bh)
        from sub [of bh] obtain evs3 where "snd (snd (submitVaultTransactionAndProposal io lib creator m idx (ephemeralSignersNeeded v creator all)
          \<lparr>payerKey = v, recentBlockhash = bh, instructions = all\<rparr> s2)) = snd s2 @ evs3" "set evs3 \<subseteq> E" by blast
        with a c w s1 b s2 Inr assms(3) show ?thesis
          by (cases "getTransactionPda lib m idx SQUADS_PROGRAM_ID")
             (simp_all add: createSwapProposal_def proc_defs)
      qed
    qed
  qed
qed

text \<open>
  C3. The count the swap path computes is the number of distinct addresses (equally: of
  distinct base58 forms) among the keys of the assembled instructions that are marked
  as signers and are neither the vault nor the creator; and every vault-transaction
  creation that \<open>createSwapProposal\<close> submits carries the assembled instructions and
  declares exactly that count as its ephemeral signers.
\<close>

theorem ephemeral_signer_count:
  "ephemeralSignersNeeded vaultPda creator allInstructions
     = card {pubkey k | k ix. ix \<in> set allInstructions \<and> k \<in> set (keys ix) \<and> isSigner k
                             \<and> pubkey k \<noteq> vaultPda \<and> pubkey k \<noteq> publicKey creator}
   \<and> ephemeralSignersNeeded vaultPda creator allInstructions
     = card {toBase58 (pubkey k) | k ix. ix \<in> set allInstructions \<and> k \<in> set (keys ix) \<and> isSigner k
                             \<and> pubkey k \<noteq> vaultPda \<and> pubkey k \<noteq> publicKey creator}
   \<and> (\<forall>t sp r. SendRawTransaction (VaultTransactionCreateTx t) sp r
          \<in> set (snd (snd (createSwapProposal io lib creator multisigPda vaultPda swapInstructions
                             transactionIndex (w, []))))
        \<longrightarrow> (\<exists>built. buildAllInstructions lib swapInstructions = Inr built
               \<and> instructions (vt_transactionMessage t) = built
               \<and> vt_ephemeralSigners t
                 = card {pubkey k | k ix. ix \<in> set built \<and> k \<in> set (keys ix) \<and> isSigner k
                                         \<and> pubkey k \<noteq> vaultPda \<and> pubkey k \<noteq> publicKey creator}))"
proof (intro conjI)
  show "ephemeralSignersNeeded vaultPda creator allInstructions
     = card {pubkey k | k ix. ix \<in> set allInstructions \<and> k \<in> set (keys ix) \<and> isSigner k
                             \<and> pubkey k \<noteq> vaultPda \<and> pubkey k \<noteq> publicKey creator}"
    by (rule ephemeralSignersNeeded_distinct_keys)
  show "ephemeralSignersNeeded vaultPda creator allInstructions
     = card {toBase58 (pubkey k) | k ix. ix \<in> set allInstructions \<and> k \<in> set (keys ix) \<and> isSigner k
                             \<and> pubkey k \<noteq> vaultPda \<and> pubkey k \<noteq> publicKey creator}"
    by (simp add: ephemeralSignersNeeded_card ephemeralSigners_def)
next
  let ?E = "{ev. \<forall>t sp r. ev = SendRawTransaction (VaultTransactionCreateTx t) sp r \<longrightarrow>
               (\<exists>built. buildAllInstructions lib swapInstructions = Inr built
               \<and> instructions (vt_transactionMessage t) = built
               \<and> vt_ephemeralSigners t = ephemeralSignersNeeded vaultPda creator built)}"
  have "emits ?E (createSwapProposal io lib creator multisigPda vaultPda swapInstructions transactionIndex)"
    by (rule emits_createSwapProposal) (auto simp: vaultTransactionCreate_def proposalCreate_def)
  from emitsD [OF this, of "(w, [])"]
  have all: "set (snd (snd (createSwapProposal io lib creator multisigPda vaultPda swapInstructions
                             transactionIndex (w, [])))) \<subseteq> ?E"
    by auto
  show "\<forall>t sp r. SendRawTransaction (VaultTransactionCreateTx t) sp r
          \<in> set (snd (snd (createSwapProposal io lib creator multisigPda vaultPda swapInstructions
                             transactionIndex (w, []))))
        \<longrightarrow> (\<exists>built. buildAllInstructions lib swapInstructions = Inr built
               \<and> instructions (vt_transactionMessage t) = built
               \<and> vt_ephemeralSigners t
                 = card {pubkey k | k ix. ix \<in> set built \<and> k \<in> set (keys ix) \<and> isSigner k
                                         \<and> pubkey k \<noteq> vaultPda \<and> pubkey k \<noteq> publicKey creator})"
  proof (intro allI impI)
    fix t sp r
    assume "SendRawTransaction (VaultTransactionCreateTx t) sp r
          \<in> set (snd (snd (createSwapProposal io lib creator multisigPda vaultPda swapInstructions
                             transactionIndex (w, []))))"
    with all have "SendRawTransaction (VaultTransactionCreateTx t) sp r \<in> ?E" by blast
    then obtain built where "buildAllInstructions lib swapInstructions = Inr built"
      "instructions (vt_transactionMessage t) = built"
      "vt_ephemeralSigners t = ephemeralSignersNeeded vaultPda creator built"
      by blast
    then show "\<exists>built. buildAllInstructions lib swapInstructions = Inr built
               \<and> instructions (vt_transactionMessage t) = built
               \<and> vt_ephemeralSigners t
                 = card {pubkey k | k ix. ix \<in> set built \<and> k \<in> set (keys ix) \<and> isSigner k
                                         \<and> pubkey k \<noteq> vaultPda \<and> pubkey k \<noteq> publicKey creator}"
      by (simp add: ephemeralSignersNeeded_distinct_keys)
  qed
qed

lemmas ledger_defs = ledgerIo_simps ledgerLib_simps emptyLedger_def ledgerSubmit_def ledgerApply_def
  hexByte_def alice_def bob_def wallet_def vault_def SQUADS_PROGRAM_ID_def

theorem ephemeral_signer_count_witness:
  "\<exists>t. SendRawTransaction (VaultTransactionCreateTx t) False (Inr ''sig'')
          \<in> set (snd (snd (createSwapProposal ledgerIo ledgerLib alice wallet vault swapBundle 5 (walletLedger, []))))
       \<and> vt_ephemeralSigners t = 2
       \<and> (\<exists>built. buildAllInstructions ledgerLib swapBundle = Inr built
               \<and> instructions (vt_transactionMessage t) = built
               \<and> vt_ephemeralSigners t
                 = card {pubkey k | k ix. ix \<in> set built \<and> k \<in> set (keys ix) \<and> isSigner k
                                         \<and> pubkey k \<noteq> vault \<and> pubkey k \<noteq> publicKey alice})"
proof -
  let ?t = "\<lparr>vt_blockhash = ''blockhash'', vt_feePayer = publicKey alice, vt_multisigPda = wallet,
             vt_transactionIndex = 5, vt_creator = publicKey alice, vt_vaultIndex = 0,
             vt_ephemeralSigners = 2,
             vt_transactionMessage = \<lparr>payerKey = vault, recentBlockhash = ''blockhash'',
               instructions = swapBuilt\<rparr>,
             vt_programId = SQUADS_PROGRAM_ID, vt_signers = [publicKey alice]\<rparr>"
  have sent: "SendRawTransaction (VaultTransactionCreateTx ?t) False (Inr ''sig'')
          \<in> set (snd (snd (createSwapProposal ledgerIo ledgerLib alice wallet vault swapBundle 5 (walletLedger, []))))"
    using swapBundle_run by (simp add: vaultTransactionCreate_def)
  from ephemeral_signer_count [of vault alice "[]" ledgerIo ledgerLib wallet swapBundle 5 walletLedger]
  have "\<exists>built. buildAllInstructions ledgerLib swapBundle = Inr built
               \<and> instructions (vt_transactionMessage ?t) = built
               \<and> vt_ephemeralSigners ?t
                 = card {pubkey k | k ix. ix \<in> set built \<and> k \<in> set (keys ix) \<and> isSigner k
                                         \<and> pubkey k \<noteq> vault \<and> pubkey k \<noteq> publicKey alice}"
    using sent by blast
  with sent show ?thesis
    by (intro exI [of _ ?t]) simp
qed

section \<open>The two writes of a proposal are made in order\<close>

lemma map_sum_External_iff [simp]:
  "(Inl e = map_sum External id r0) = (\<exists>t. r0 = Inl t \<and> e = External t)"
  "(Inr x = map_sum External id r0) = (r0 = Inr x)"
  by (cases r0; auto)+

lemma filter_nonsubmissions:
  "set evs \<subseteq> {ev. \<not> isSubmission ev} \<Longrightarrow> filter isSubmission evs = []"
  by (induction evs) auto

lemma waitForMultisig_quiet:
  assumes "waitForMultisig io p n s = (r, s')"
  obtains evs where "snd s' = snd s @ evs"
    "set evs \<subseteq> {ev. (\<exists>a c r. ev = GetAccountInfo a c r) \<or> (\<exists>ms. ev = SetTimeout ms)}"
proof -
  have "emits {ev. (\<exists>a c r. ev = GetAccountInfo a c r) \<or> (\<exists>ms. ev = SetTimeout ms)} (waitForMultisig io p n)"
    by (rule emits_waitForMultisig) auto
  from emitsD [OF this, of s] assms that show thesis by auto
qed










lemma waitForMultisig_filter:
  assumes "waitForMultisig io p n s = (r, s')"
  obtains evs where "snd s' = snd s @ evs" "filter isSubmission evs = []"
    "\<forall>a r. GetBalance a r \<notin> set evs" "\<forall>r. GetLatestBlockhash r \<notin> set evs"
proof -
  from assms obtain evs where evs: "snd s' = snd s @ evs"
    "set evs \<subseteq> {ev. (\<exists>a c r. ev = GetAccountInfo a c r) \<or> (\<exists>ms. ev = SetTimeout ms)}"
    by (rule waitForMultisig_quiet)
  have "filter isSubmission evs = []"
    by (rule filter_nonsubmissions) (use evs(2) in auto)
  moreover have "\<forall>a r. GetBalance a r \<notin> set evs" "\<forall>r. GetLatestBlockhash r \<notin> set evs"
    using evs(2) by auto
  ultimately show thesis using evs(1) that by blast
qed







section \<open>The transfer path rejects an insufficient vault balance before any write\<close>

text \<open>
  C5. When the visibility poll of \<open>createTransferProposal\<close> has completed and the read of
  the vault balance answers a balance strictly below \<open>amountLamports\<close>, the function
  throws the insufficient-vault-balance error, leaves the world as the balance read left
  it, and the run has made no submission, no confirmation wait and no blockhash read
  (no message was built): every call it made is a read of an account or the balance,
  or a pause.
\<close>

theorem insufficient_vault_balance_rejected:
  assumes visible: "waitForMultisig io multisigPda 15 (w, []) = (Inr (), s1)"
      and balance: "getBalance io vaultPda (fst s1) = (Inr vaultBalance, w2)"
      and less: "int vaultBalance < amountLamports"
  shows "fst (createTransferProposal io lib creator multisigPda vaultPda recipient amountLamports
                transactionIndex (w, []))
           = Inl (Error (''Insufficient vault balance. Has '' @ formatSol lib (int vaultBalance)
                         @ '' SOL, need '' @ formatSol lib amountLamports @ '' SOL''))
       \<and> fst (snd (createTransferProposal io lib creator multisigPda vaultPda recipient amountLamports
                     transactionIndex (w, []))) = w2
       \<and> (\<forall>ev \<in> set (snd (snd (createTransferProposal io lib creator multisigPda vaultPda recipient
                                   amountLamports transactionIndex (w, [])))).
             \<not> isSubmission ev \<and> (\<forall>r. ev \<noteq> GetLatestBlockhash r))"
proof -
  from visible obtain evs1 where s1: "snd s1 = snd (w, []) @ evs1" "filter isSubmission evs1 = []"
    "\<forall>r. GetLatestBlockhash r \<notin> set evs1"
    by (rule waitForMultisig_filter)
  have quiet: "\<forall>ev\<in>set evs1. \<not> isSubmission ev"
    using s1(2) by (simp add: filter_empty_conv)
  have run: "createTransferProposal io lib creator multisigPda vaultPda recipient amountLamports
                transactionIndex (w, [])
           = (Inl (Error (''Insufficient vault balance. Has '' @ formatSol lib (int vaultBalance)
                         @ '' SOL, need '' @ formatSol lib amountLamports @ '' SOL'')),
              (w2, snd s1 @ [GetBalance vaultPda (Inr vaultBalance)]))"
    using visible balance less
    by (simp add: createTransferProposal_def proc_defs conn_getBalance_def await_def)
  show ?thesis
    unfolding run using s1(1,3) quiet by auto
qed



lemma poorLedger_visible:
  "waitForMultisig ledgerIo wallet 15 (poorLedger, [])
     = (Inr (), (poorLedger,
          [GetAccountInfo wallet (Some Confirmed)
             (Inr (Some \<lparr>owner = SQUADS_PROGRAM_ID, account_data = [4]\<rparr>))]))"
  by (simp add: waitForMultisig_numeral conn_defs ledgerIo_simps poorLedger_def walletLedger_def
      emptyLedger_def)

theorem insufficient_vault_balance_rejected_witness:
  "fst (createTransferProposal ledgerIo ledgerLib alice wallet vault bob 1000000000 5 (poorLedger, []))
     = Inl (Error (''Insufficient vault balance. Has '' @ formatSol ledgerLib (int 500000000)
                   @ '' SOL, need '' @ formatSol ledgerLib 1000000000 @ '' SOL''))
   \<and> fst (snd (createTransferProposal ledgerIo ledgerLib alice wallet vault bob 1000000000 5 (poorLedger, [])))
       = poorLedger
   \<and> filter isSubmission
        (snd (snd (createTransferProposal ledgerIo ledgerLib alice wallet vault bob 1000000000 5
                     (poorLedger, [])))) = []
   \<and> (\<forall>r. GetLatestBlockhash r
          \<notin> set (snd (snd (createTransferProposal ledgerIo ledgerLib alice wallet vault bob 1000000000 5
                             (poorLedger, [])))))"
proof -
  have balance: "getBalance ledgerIo vault
                   (fst (poorLedger,
                      [GetAccountInfo wallet (Some Confirmed)
                         (Inr (Some \<lparr>owner = SQUADS_PROGRAM_ID, account_data = [4]\<rparr>))]))
                 = (Inr 500000000, poorLedger)"
    by (simp add: ledgerIo_simps poorLedger_def walletLedger_def emptyLedger_def)
  have less: "int 500000000 < 1000000000" by simp
  from insufficient_vault_balance_rejected [OF poorLedger_visible balance less, of ledgerLib alice bob 5]
  show ?thesis
    by (auto simp: filter_empty_conv)
qed

section \<open>The swap path never looks at the vault balance\<close>






lemma submit_refused:
  assumes "getLatestBlockhash io (fst s) = (Inr bh, w')"
      and "signAndSerialize lib (vaultTransactionCreate bh c m idx eph msg) [c] = Inl t"
  shows "submitVaultTransactionAndProposal io lib c m idx eph msg s
           = (Inl (External t), (w', snd s @ [GetLatestBlockhash (Inr bh)]))"
  using assms
  by (simp add: submitVaultTransactionAndProposal_def proc_defs conn_defs Let_def)

text \<open>
  A vault transaction that the library cannot build, sign or serialize is never sent:
  the swap path throws what the library threw, after the second blockhash read.
\<close>

lemma createSwapProposal_unserializable:
  assumes wt: "waitForMultisig io multisigPda 15 (w, []) = (Inr (), s1)"
      and b: "buildAllInstructions lib swapInstructions = Inr built"
      and h1: "getLatestBlockhash io (fst s1) = (Inr bh, w2)"
      and u64: "0 \<le> transactionIndex" "transactionIndex < 2 ^ 64"
      and h2: "getLatestBlockhash io w2 = (Inr bh', w3)"
      and refused: "signAndSerialize lib
                      (vaultTransactionCreate bh' creator multisigPda transactionIndex
                         (ephemeralSignersNeeded vaultPda creator built)
                         \<lparr>payerKey = vaultPda, recentBlockhash = bh, instructions = built\<rparr>) [creator] = Inl t"
  shows "createSwapProposal io lib creator multisigPda vaultPda swapInstructions transactionIndex (w, [])
           = (Inl (External t),
              (w3, snd s1 @ [GetLatestBlockhash (Inr bh), GetLatestBlockhash (Inr bh')]))"
proof -
  let ?s2 = "(w2, snd s1 @ [GetLatestBlockhash (Inr bh)])"
  have run: "createSwapProposal io lib creator multisigPda vaultPda swapInstructions transactionIndex (w, [])
        = submitVaultTransactionAndProposal io lib creator multisigPda transactionIndex
            (ephemeralSignersNeeded vaultPda creator built)
            \<lparr>payerKey = vaultPda, recentBlockhash = bh, instructions = built\<rparr> ?s2"
    using wt b h1 u64
    by (simp add: createSwapProposal_def proc_defs conn_getLatestBlockhash_def await_def
        getTransactionPda_def)
  have "getLatestBlockhash io (fst ?s2) = (Inr bh', w3)" using h2 by simp
  from submit_refused [OF this refused] show ?thesis unfolding run by simp
qed




section \<open>Exhausting the attempts of \<open>createSquad\<close>\<close>

lemma createSquadLoop_exhausted:
  assumes "\<forall>oc \<in> set (attemptOutcomes io lib creator member2 threshold i (MAX_ATTEMPTS - i) s). failedAttempt oc"
  shows "fst (createSquadLoop io lib creator member2 threshold i lastError s)
           = Inl (case lastCaught (attemptOutcomes io lib creator member2 threshold i (MAX_ATTEMPTS - i) s) of
                    Some e \<Rightarrow> e
                  | None \<Rightarrow> (case lastError of
                               Some e \<Rightarrow> e
                             | None \<Rightarrow> Error ''Failed to find a valid Vault slot after multiple attempts.''))"
  using assms
proof (induction "MAX_ATTEMPTS - i" arbitrary: i lastError s)
  case 0
  then have "\<not> i < MAX_ATTEMPTS" by simp
  with 0 show ?case by (subst createSquadLoop.simps) simp
next
  case (Suc d)
  then have lt: "i < MAX_ATTEMPTS" and d: "d = MAX_ATTEMPTS - Suc i" by simp_all
  have n: "MAX_ATTEMPTS - i = Suc (MAX_ATTEMPTS - Suc i)" using lt by simp
  obtain oc s1 where step: "createSquadAttempt io lib creator member2 threshold i s = (oc, s1)"
    by (cases "createSquadAttempt io lib creator member2 threshold i s")
  show ?case
  proof (cases oc)
    case (Returned r)
    with Suc.prems step n show ?thesis by (simp add: failedAttempt_def)
  next
    case (Raised e)
    with Suc.prems step n show ?thesis by (simp add: failedAttempt_def)
  next
    case Skipped
    with Suc.prems step n
    have rest: "\<forall>oc \<in> set (attemptOutcomes io lib creator member2 threshold (Suc i) (MAX_ATTEMPTS - Suc i) s1). failedAttempt oc"
      by simp
    from Suc.hyps(1) [OF d rest, of lastError] Skipped step lt n show ?thesis
      by (subst createSquadLoop.simps) (simp split: option.splits)
  next
    case (Caught e)
    with Suc.prems step n
    have rest: "\<forall>oc \<in> set (attemptOutcomes io lib creator member2 threshold (Suc i) (MAX_ATTEMPTS - Suc i) s1). failedAttempt oc"
      by simp
    from Suc.hyps(1) [OF d rest, of "Some e"] Caught step lt n show ?thesis
      by (subst createSquadLoop.simps) (simp split: option.splits)
  qed
qed

text \<open>
  C7, as amended. When the balance check has passed and each of the ten attempts has
  failed (it was skipped, or it ended in the \<open>catch\<close>), \<open>createSquad\<close> throws: the error of
  the last attempt that ended in the \<open>catch\<close> when there is one, and only when every
  attempt was skipped the error "Failed to find a valid Vault slot after multiple
  attempts."
\<close>

theorem createSquad_exhausted:
  assumes funded: "conn_getBalance io (publicKey creator) s = (Inr balance, s1)" "\<not> balance < 10000000"
      and failed: "\<forall>oc \<in> set (attemptOutcomes io lib creator member2 threshold 0 MAX_ATTEMPTS s1). failedAttempt oc"
  shows "fst (createSquad io lib creator member2 threshold s)
           = Inl (case lastCaught (attemptOutcomes io lib creator member2 threshold 0 MAX_ATTEMPTS s1) of
                    Some e \<Rightarrow> e
                  | None \<Rightarrow> Error ''Failed to find a valid Vault slot after multiple attempts.'')"
proof -
  have "createSquad io lib creator member2 threshold s
          = createSquadLoop io lib creator member2 threshold 0 None s1"
    using funded by (simp add: createSquad_def proc_defs)
  with createSquadLoop_exhausted [of io lib creator member2 threshold 0 s1 None] failed
  show ?thesis by (simp split: option.splits)
qed

lemma down_outcomes:
  "attemptOutcomes ledgerIo ledgerLib alice bob 1 0 MAX_ATTEMPTS
     (downLedger, [GetBalance (publicKey alice) (Inr 50000000)])
   = [Caught (External networkDown), Caught (External networkDown), Caught (External networkDown),
      Caught (External networkDown), Caught (External networkDown), Caught (External networkDown),
      Caught (External networkDown), Caught (External networkDown), Caught (External networkDown),
      Caught (External networkDown)]"
  by (simp add: attemptOutcomes_numeral squad_run_simps downLedger_def alice_pda_simps networkDown_def)

lemma down_funded:
  "conn_getBalance ledgerIo (publicKey alice) (downLedger, [])
     = (Inr 50000000, (downLedger, [GetBalance (publicKey alice) (Inr 50000000)]))"
  by (simp add: conn_defs ledgerIo_simps downLedger_def fundedLedger_def emptyLedger_def)

theorem createSquad_exhausted_witness:
  "fst (createSquad ledgerIo ledgerLib alice bob 1 (downLedger, [])) = Inl (External networkDown)"
proof -
  have enough: "\<not> (50000000::nat) < 10000000" by simp
  have failed: "\<forall>oc \<in> set (attemptOutcomes ledgerIo ledgerLib alice bob 1 0 MAX_ATTEMPTS
                               (downLedger, [GetBalance (publicKey alice) (Inr 50000000)])).
                  failedAttempt oc"
    by (simp add: down_outcomes failedAttempt_def)
  from createSquad_exhausted [OF down_funded enough failed]
  show ?thesis by (simp add: down_outcomes)
qed

text \<open>
  The claim as stated fails on a ledger whose node refuses every submission: the ten
  attempts all end in the \<open>catch\<close>, and the run throws the network error, not the
  no-slot error.
\<close>

theorem createSquad_exhausted_error_counterexample:
  "attemptOutcomes ledgerIo ledgerLib alice bob 1 0 MAX_ATTEMPTS
     (snd (conn_getBalance ledgerIo (publicKey alice) (downLedger, [])))
   = [Caught (External networkDown), Caught (External networkDown), Caught (External networkDown),
      Caught (External networkDown), Caught (External networkDown), Caught (External networkDown),
      Caught (External networkDown), Caught (External networkDown), Caught (External networkDown),
      Caught (External networkDown)]
   \<and> fst (createSquad ledgerIo ledgerLib alice bob 1 (downLedger, []))
       \<noteq> Inl (Error ''Failed to find a valid Vault slot after multiple attempts.'')"
proof -
  have failed: "\<forall>oc \<in> set (attemptOutcomes ledgerIo ledgerLib alice bob 1 0 (MAX_ATTEMPTS - 0)
                               (downLedger, [GetBalance (publicKey alice) (Inr 50000000)])).
                  failedAttempt oc"
    by (simp add: down_outcomes failedAttempt_def)
  have "createSquad ledgerIo ledgerLib alice bob 1 (downLedger, [])
          = createSquadLoop ledgerIo ledgerLib alice bob 1 0 None
              (downLedger, [GetBalance (publicKey alice) (Inr 50000000)])"
    by (simp add: createSquad_def proc_defs down_funded)
  with createSquadLoop_exhausted [OF failed, of None]
  have "fst (createSquad ledgerIo ledgerLib alice bob 1 (downLedger, [])) = Inl (External networkDown)"
    by (simp add: down_outcomes)
  then show ?thesis by (simp add: down_funded down_outcomes)
qed

section \<open>Collisions are skipped, and returned addresses are verified or fresh\<close>

lemma map_sum_External_eq [simp]:
  "(map_sum External id r0 = Inl e) = (\<exists>t. r0 = Inl t \<and> e = External t)"
  "(map_sum External id r0 = Inr x) = (r0 = Inr x)"
  by (cases r0; auto)+

lemma verifyOwnership_True:
  "verifyOwnership io p n s = (Inr True, s') \<Longrightarrow>
     \<exists>c info. GetAccountInfo p c (Inr info) \<in> set (snd s') \<and> ownedBySquads info"
proof (induction n arbitrary: s)
  case 0
  then show ?case by simp
next
  case (Suc n)
  obtain r s1 where step: "conn_getAccountInfo io p (Some Confirmed) s = (r, s1)"
    by (cases "conn_getAccountInfo io p (Some Confirmed) s")
  then obtain r0 where r0: "r = map_sum External id r0" "snd s1 = snd s @ [GetAccountInfo p (Some Confirmed) r0]"
    by (rule conn_getAccountInfoE)
  show ?case
  proof (cases r)
    case (Inl e)
    with Suc.prems step show ?thesis by simp
  next
    case (Inr check)
    show ?thesis
    proof (cases "ownedBySquads check")
      case True
      with Inr Suc.prems step r0 show ?thesis by auto
    next
      case False
      with Inr Suc.prems step
      have "verifyOwnership io p n (sleep io 1000 s1) = (Inr True, s')" by simp
      then show ?thesis by (rule Suc.IH)
    qed
  qed
qed

lemma verifyVisible_grows:
  assumes "verifyVisible io p n s = (r, s')"
  shows "set (snd s) \<subseteq> set (snd s')"
proof -
  have "emits UNIV (verifyVisible io p n)" by (rule emits_verifyVisible) simp_all
  from emitsD [OF this, of s] assms show ?thesis by auto
qed

lemma tryCreate_Inr:
  assumes "tryCreate io lib creator member2 threshold i s = (Inr r, s')"
  shows "r = \<lparr>squad_signature = squad_signature r,
               squad_multisigPda = multisigPdaAt lib creator i,
               squad_vaultPda = vaultPdaAt lib creator i\<rparr>
       \<and> (\<exists>bh sig. SendTransaction (multisigCreateTx lib creator member2 threshold i bh) False (Inr sig)
                     \<in> set (snd s')
                   \<and> ConfirmTransaction sig (Inr None) \<in> set (snd s'))"
  using assms
  by (auto simp: tryCreate_def proc_defs split: prod.splits sum.splits option.splits
      elim!: connE dest!: verifyVisible_grows) blast

lemma catchCreate_Returned:
  assumes "catchCreate io lib creator i e s = (Returned r, s')"
  shows "r = \<lparr>squad_signature = ''RECOVERED_6014'',
               squad_multisigPda = multisigPdaAt lib creator i,
               squad_vaultPda = vaultPdaAt lib creator i\<rparr>
       \<and> (\<exists>c info. GetAccountInfo (multisigPdaAt lib creator i) c (Inr info) \<in> set (snd s')
                    \<and> ownedBySquads info)"
  using assms
  by (auto simp: catchCreate_def Let_def split: prod.splits sum.splits if_splits
      dest!: verifyOwnership_True)

lemma createSquadAttempt_evidence:
  assumes "createSquadAttempt io lib creator member2 threshold i s = (Returned r, s')"
  shows "squad_multisigPda r = multisigPdaAt lib creator i
       \<and> squad_vaultPda r = vaultPdaAt lib creator i
       \<and> verifiedOrCreated lib creator member2 threshold i (snd s')"
proof -
  obtain r0 s1 where head: "conn_getAccountInfo io (multisigPdaAt lib creator i) None s = (r0, s1)"
    by (cases "conn_getAccountInfo io (multisigPdaAt lib creator i) None s")
  then obtain r0' where s1: "r0 = map_sum External id r0'"
    "snd s1 = snd s @ [GetAccountInfo (multisigPdaAt lib creator i) None r0']"
    by (rule conn_getAccountInfoE)
  show ?thesis
  proof (cases r0)
    case (Inl e)
    with assms head show ?thesis by (simp add: createSquadAttempt_def)
  next
    case (Inr existingInfo)
    show ?thesis
    proof (cases "ownedBySquads existingInfo")
      case True
      with Inr assms head s1 show ?thesis
        by (auto simp: createSquadAttempt_def verifiedOrCreated_def)
    next
      case False
      show ?thesis
      proof (cases existingInfo)
        case (Some a)
        with False Inr assms head show ?thesis by (simp add: createSquadAttempt_def)
      next
        case None
        obtain r1 s2 where body: "tryCreate io lib creator member2 threshold i s1 = (r1, s2)"
          by (cases "tryCreate io lib creator member2 threshold i s1")
        show ?thesis
        proof (cases r1)
          case a: (Inr res)
          with None False Inr assms head body have "res = r" "s2 = s'"
            by (simp_all add: createSquadAttempt_def)
          with a body tryCreate_Inr [of io lib creator member2 threshold i s1 r s'] show ?thesis
            by (auto simp: verifiedOrCreated_def) (metis SquadResult.select_convs(2,3))+
        next
          case a: (Inl e)
          with None False Inr assms head body
          have "catchCreate io lib creator i e s2 = (Returned r, s')"
            by (simp add: createSquadAttempt_def)
          from catchCreate_Returned [OF this] show ?thesis
            by (auto simp: verifiedOrCreated_def)
        qed
      qed
    qed
  qed
qed


lemma createSquadAttempt_grows:
  assumes "createSquadAttempt io lib creator member2 threshold i s = (oc, s')"
  shows "set (snd s) \<subseteq> set (snd s')"
proof -
  have "emits UNIV (createSquadAttempt io lib creator member2 threshold i)"
    by (rule emits_createSquadAttempt) simp_all
  from emitsD [OF this, of s] assms show ?thesis by auto
qed

lemma createSquadLoop_evidence:
  assumes "createSquadLoop io lib creator member2 threshold i lastError s = (Inr r, s')"
  shows "\<exists>k<MAX_ATTEMPTS. i \<le> k
           \<and> squad_multisigPda r = multisigPdaAt lib creator k
           \<and> squad_vaultPda r = vaultPdaAt lib creator k
           \<and> verifiedOrCreated lib creator member2 threshold k (snd s')"
  using assms
proof (induction "MAX_ATTEMPTS - i" arbitrary: i lastError s)
  case 0
  then have "\<not> i < MAX_ATTEMPTS" by simp
  with 0 show ?case by (simp add: createSquadLoop.simps)
next
  case (Suc d)
  then have lt: "i < MAX_ATTEMPTS" and d: "d = MAX_ATTEMPTS - Suc i" by simp_all
  obtain oc s1 where step: "createSquadAttempt io lib creator member2 threshold i s = (oc, s1)"
    by (cases "createSquadAttempt io lib creator member2 threshold i s")
  show ?case
  proof (cases oc)
    case (Returned res)
    with Suc.prems step lt have "res = r" "s1 = s'" by (simp_all add: createSquadLoop.simps)
    with Returned step createSquadAttempt_evidence [of io lib creator member2 threshold i s r s'] lt
    show ?thesis by auto
  next
    case Skipped
    with Suc.prems step lt
    have "createSquadLoop io lib creator member2 threshold (Suc i) lastError s1 = (Inr r, s')"
      by (simp add: createSquadLoop.simps)
    from Suc.hyps(1) [OF d this] show ?thesis by (auto intro: Suc_leD)
  next
    case (Caught e)
    with Suc.prems step lt
    have "createSquadLoop io lib creator member2 threshold (Suc i) (Some e) s1 = (Inr r, s')"
      by (simp add: createSquadLoop.simps)
    from Suc.hyps(1) [OF d this] show ?thesis by (auto intro: Suc_leD)
  next
    case (Raised e)
    with Suc.prems step lt show ?thesis by (simp add: createSquadLoop.simps)
  qed
qed

lemma createSquad_evidence:
  assumes "createSquad io lib creator member2 threshold s = (Inr r, s')"
  shows "\<exists>k<MAX_ATTEMPTS. squad_multisigPda r = multisigPdaAt lib creator k
           \<and> squad_vaultPda r = vaultPdaAt lib creator k
           \<and> verifiedOrCreated lib creator member2 threshold k (snd s')"
proof -
  obtain r0 s1 where gb: "conn_getBalance io (publicKey creator) s = (r0, s1)"
    by (cases "conn_getBalance io (publicKey creator) s")
  with assms have "createSquadLoop io lib creator member2 threshold 0 None s1 = (Inr r, s')"
    by (auto simp: createSquad_def proc_defs split: sum.splits if_splits)
  from createSquadLoop_evidence [OF this] show ?thesis by blast
qed

lemma createSquadAttempt_foreign:
  assumes "conn_getAccountInfo io (multisigPdaAt lib creator i) None s = (Inr (Some a), s1)"
    and "toBase58 (owner a) \<noteq> toBase58 SQUADS_PROGRAM_ID"
  shows "createSquadAttempt io lib creator member2 threshold i s = (Skipped, s1)"
  using assms by (simp add: createSquadAttempt_def ownedBySquads_def)

lemma createSquadAttempt_6014:
  assumes "conn_getAccountInfo io (multisigPdaAt lib creator i) None s = (Inr None, s1)"
    and "tryCreate io lib creator member2 threshold i s1 = (Inl e, s2)"
    and "str_includes (message e @ stringify e) ''6014''
         \<or> str_includes (message e @ stringify e) ''already in use''"
    and "verifyOwnership io (multisigPdaAt lib creator i) 5 s2 = (Inr False, s3)"
  shows "createSquadAttempt io lib creator member2 threshold i s = (Caught e, s3)"
  using assms by (auto simp: createSquadAttempt_def ownedBySquads_def catchCreate_def Let_def)

text \<open>
  C6. At an attempt \<open>i\<close> whose address holds an account that the Squads program does not
  own, \<open>createSquad\<close> returns nothing and goes on with attempt \<open>i + 1\<close>, \<open>lastError\<close>
  unchanged. At an attempt where no account shows, the creation fails with an error
  that names 6014 or "already in use", and the five ownership reads do not show an
  account owned by the Squads program, it goes on with attempt \<open>i + 1\<close> as well. And
  whenever \<open>createSquad\<close> returns, the addresses are those of an attempt below the bound
  whose multisig address the run has read as owned by the Squads program, or has
  created with a transaction that was accepted and confirmed without error.
\<close>

theorem collision_skip:
  "(\<forall>s a s1 lastError.
      i < MAX_ATTEMPTS
      \<and> conn_getAccountInfo io (multisigPdaAt lib creator i) None s = (Inr (Some a), s1)
      \<and> toBase58 (owner a) \<noteq> toBase58 SQUADS_PROGRAM_ID
      \<longrightarrow> createSquadAttempt io lib creator member2 threshold i s = (Skipped, s1)
          \<and> createSquadLoop io lib creator member2 threshold i lastError s
              = createSquadLoop io lib creator member2 threshold (Suc i) lastError s1)
   \<and> (\<forall>s s1 e s2 s3 lastError.
        i < MAX_ATTEMPTS
        \<and> conn_getAccountInfo io (multisigPdaAt lib creator i) None s = (Inr None, s1)
        \<and> tryCreate io lib creator member2 threshold i s1 = (Inl e, s2)
        \<and> (str_includes (message e @ stringify e) ''6014''
             \<or> str_includes (message e @ stringify e) ''already in use'')
        \<and> verifyOwnership io (multisigPdaAt lib creator i) 5 s2 = (Inr False, s3)
        \<longrightarrow> createSquadAttempt io lib creator member2 threshold i s = (Caught e, s3)
            \<and> createSquadLoop io lib creator member2 threshold i lastError s
                = createSquadLoop io lib creator member2 threshold (Suc i) (Some e) s3)
   \<and> (\<forall>w r. fst (createSquad io lib creator member2 threshold (w, [])) = Inr r
        \<longrightarrow> (\<exists>k<MAX_ATTEMPTS.
               squad_multisigPda r = multisigPdaAt lib creator k
               \<and> squad_vaultPda r = vaultPdaAt lib creator k
               \<and> verifiedOrCreated lib creator member2 threshold k
                    (snd (snd (createSquad io lib creator member2 threshold (w, []))))))"
proof (intro conjI allI impI)
  fix s a s1 lastError
  assume h: "i < MAX_ATTEMPTS
      \<and> conn_getAccountInfo io (multisigPdaAt lib creator i) None s = (Inr (Some a), s1)
      \<and> toBase58 (owner a) \<noteq> toBase58 SQUADS_PROGRAM_ID"
  then have at: "createSquadAttempt io lib creator member2 threshold i s = (Skipped, s1)"
    by (intro createSquadAttempt_foreign) blast+
  then show "createSquadAttempt io lib creator member2 threshold i s = (Skipped, s1)" .
  from at h show "createSquadLoop io lib creator member2 threshold i lastError s
              = createSquadLoop io lib creator member2 threshold (Suc i) lastError s1"
    by (subst createSquadLoop.simps) simp
next
  fix s s1 e s2 s3 lastError
  assume h: "i < MAX_ATTEMPTS
        \<and> conn_getAccountInfo io (multisigPdaAt lib creator i) None s = (Inr None, s1)
        \<and> tryCreate io lib creator member2 threshold i s1 = (Inl e, s2)
        \<and> (str_includes (message e @ stringify e) ''6014''
             \<or> str_includes (message e @ stringify e) ''already in use'')
        \<and> verifyOwnership io (multisigPdaAt lib creator i) 5 s2 = (Inr False, s3)"
  then have at: "createSquadAttempt io lib creator member2 threshold i s = (Caught e, s3)"
    by (intro createSquadAttempt_6014 [of io lib creator i s s1 member2 threshold e s2 s3]) blast+
  then show "createSquadAttempt io lib creator member2 threshold i s = (Caught e, s3)" .
  from at h show "createSquadLoop io lib creator member2 threshold i lastError s
                = createSquadLoop io lib creator member2 threshold (Suc i) (Some e) s3"
    by (subst createSquadLoop.simps) simp
next
  fix w r
  assume "fst (createSquad io lib creator member2 threshold (w, [])) = Inr r"
  then obtain s' where run: "createSquad io lib creator member2 threshold (w, []) = (Inr r, s')"
    by (cases "createSquad io lib creator member2 threshold (w, [])") simp
  from createSquad_evidence [OF run] run
  show "\<exists>k<MAX_ATTEMPTS.
               squad_multisigPda r = multisigPdaAt lib creator k
               \<and> squad_vaultPda r = vaultPdaAt lib creator k
               \<and> verifiedOrCreated lib creator member2 threshold k
                    (snd (snd (createSquad io lib creator member2 threshold (w, []))))"
    by simp
qed


lemma pair_fst_snd: "fst x = a \<Longrightarrow> x = (a, snd x)"
  by (cases x) simp

lemma zombie_head:
  "fst (conn_getAccountInfo ledgerIo (multisigPdaAt ledgerLib alice 0) None (zombieLedger, []))
     = Inr (Some zombieAccount)"
  by (simp add: conn_defs ledgerIo_simps zombieLedger_def fundedLedger_def emptyLedger_def)

lemma zombie_foreign: "toBase58 (owner zombieAccount) \<noteq> toBase58 SQUADS_PROGRAM_ID"
  by (simp add: zombieAccount_def SystemProgram_programId_def SQUADS_PROGRAM_ID_def)

lemma race_head:
  "fst (conn_getAccountInfo ledgerIo (multisigPdaAt ledgerLib alice 0) None (raceLedger, [])) = Inr None"
  by (simp add: conn_defs ledgerIo_simps raceLedger_def fundedLedger_def emptyLedger_def)

lemma race_create:
  "fst (tryCreate ledgerIo ledgerLib alice bob 1 0
          (snd (conn_getAccountInfo ledgerIo (multisigPdaAt ledgerLib alice 0) None (raceLedger, []))))
     = Inl (External alreadyInitialized)"
  by (simp add: tryCreate_def proc_defs conn_defs ledgerIo_simps ledgerSubmit_def raceLedger_def
      fundedLedger_def emptyLedger_def)

lemma race_message:
  "str_includes (message (External alreadyInitialized) @ stringify (External alreadyInitialized)) ''6014''"
  by (simp add: alreadyInitialized_def)

lemma race_verify:
  "fst (verifyOwnership ledgerIo (multisigPdaAt ledgerLib alice 0) 5
          (snd (tryCreate ledgerIo ledgerLib alice bob 1 0
             (snd (conn_getAccountInfo ledgerIo (multisigPdaAt ledgerLib alice 0) None (raceLedger, []))))))
     = Inr False"
  by (simp add: verifyOwnership_numeral tryCreate_def proc_defs conn_defs ledgerIo_simps ledgerSubmit_def
      raceLedger_def fundedLedger_def emptyLedger_def ownedBySquads_def)

lemma funded_run:
  "fst (createSquad ledgerIo ledgerLib alice bob 1 (fundedLedger, []))
     = Inr \<lparr>squad_signature = ''sig'',
            squad_multisigPda = multisigPdaAt ledgerLib alice 0,
            squad_vaultPda = vaultPdaAt ledgerLib alice 0\<rparr>"
  by (simp add: squad_run_simps alice_pda_simps)

theorem collision_skip_witness:
  "createSquadAttempt ledgerIo ledgerLib alice bob 1 0 (zombieLedger, [])
     = (Skipped, snd (conn_getAccountInfo ledgerIo (multisigPdaAt ledgerLib alice 0) None (zombieLedger, [])))
   \<and> createSquadLoop ledgerIo ledgerLib alice bob 1 0 None (zombieLedger, [])
     = createSquadLoop ledgerIo ledgerLib alice bob 1 (Suc 0) None
         (snd (conn_getAccountInfo ledgerIo (multisigPdaAt ledgerLib alice 0) None (zombieLedger, [])))
   \<and> fst (createSquadAttempt ledgerIo ledgerLib alice bob 1 0 (raceLedger, []))
     = Caught (External alreadyInitialized)
   \<and> (\<exists>k<MAX_ATTEMPTS.
         multisigPdaAt ledgerLib alice 0 = multisigPdaAt ledgerLib alice k
         \<and> verifiedOrCreated ledgerLib alice bob 1 k
              (snd (snd (createSquad ledgerIo ledgerLib alice bob 1 (fundedLedger, [])))))"
proof -
  note t = collision_skip [of 0 ledgerIo ledgerLib alice bob 1]
  have lt: "0 < MAX_ATTEMPTS" by (simp add: MAX_ATTEMPTS_def)
  let ?z1 = "snd (conn_getAccountInfo ledgerIo (multisigPdaAt ledgerLib alice 0) None (zombieLedger, []))"
  from t have a: "\<forall>s a s1 lastError.
      0 < MAX_ATTEMPTS
      \<and> conn_getAccountInfo ledgerIo (multisigPdaAt ledgerLib alice 0) None s = (Inr (Some a), s1)
      \<and> toBase58 (owner a) \<noteq> toBase58 SQUADS_PROGRAM_ID
      \<longrightarrow> createSquadAttempt ledgerIo ledgerLib alice bob 1 0 s = (Skipped, s1)
          \<and> createSquadLoop ledgerIo ledgerLib alice bob 1 0 lastError s
              = createSquadLoop ledgerIo ledgerLib alice bob 1 (Suc 0) lastError s1"
    by (elim conjE)
  from a [rule_format, of "(zombieLedger, [])" zombieAccount ?z1 None]
    lt pair_fst_snd [OF zombie_head] zombie_foreign
  have A: "createSquadAttempt ledgerIo ledgerLib alice bob 1 0 (zombieLedger, []) = (Skipped, ?z1)
          \<and> createSquadLoop ledgerIo ledgerLib alice bob 1 0 None (zombieLedger, [])
              = createSquadLoop ledgerIo ledgerLib alice bob 1 (Suc 0) None ?z1"
    by blast
  let ?r1 = "snd (conn_getAccountInfo ledgerIo (multisigPdaAt ledgerLib alice 0) None (raceLedger, []))"
  let ?r2 = "snd (tryCreate ledgerIo ledgerLib alice bob 1 0 ?r1)"
  let ?r3 = "snd (verifyOwnership ledgerIo (multisigPdaAt ledgerLib alice 0) 5 ?r2)"
  from t have b: "\<forall>s s1 e s2 s3 lastError.
        0 < MAX_ATTEMPTS
        \<and> conn_getAccountInfo ledgerIo (multisigPdaAt ledgerLib alice 0) None s = (Inr None, s1)
        \<and> tryCreate ledgerIo ledgerLib alice bob 1 0 s1 = (Inl e, s2)
        \<and> (str_includes (message e @ stringify e) ''6014''
             \<or> str_includes (message e @ stringify e) ''already in use'')
        \<and> verifyOwnership ledgerIo (multisigPdaAt ledgerLib alice 0) 5 s2 = (Inr False, s3)
        \<longrightarrow> createSquadAttempt ledgerIo ledgerLib alice bob 1 0 s = (Caught e, s3)
            \<and> createSquadLoop ledgerIo ledgerLib alice bob 1 0 lastError s
                = createSquadLoop ledgerIo ledgerLib alice bob 1 (Suc 0) (Some e) s3"
    by (elim conjE)
  from b [rule_format, of "(raceLedger, [])" ?r1 "External alreadyInitialized" ?r2 ?r3 None]
    lt pair_fst_snd [OF race_head] pair_fst_snd [OF race_create] race_message pair_fst_snd [OF race_verify]
  have B: "fst (createSquadAttempt ledgerIo ledgerLib alice bob 1 0 (raceLedger, []))
             = Caught (External alreadyInitialized)"
    by simp
  from t have c: "\<forall>w r. fst (createSquad ledgerIo ledgerLib alice bob 1 (w, [])) = Inr r
        \<longrightarrow> (\<exists>k<MAX_ATTEMPTS.
               squad_multisigPda r = multisigPdaAt ledgerLib alice k
               \<and> squad_vaultPda r = vaultPdaAt ledgerLib alice k
               \<and> verifiedOrCreated ledgerLib alice bob 1 k
                    (snd (snd (createSquad ledgerIo ledgerLib alice bob 1 (w, [])))))"
    by (elim conjE)
  from c [rule_format, OF funded_run]
  have C: "\<exists>k<MAX_ATTEMPTS.
         multisigPdaAt ledgerLib alice 0 = multisigPdaAt ledgerLib alice k
         \<and> verifiedOrCreated ledgerLib alice bob 1 k
              (snd (snd (createSquad ledgerIo ledgerLib alice bob 1 (fundedLedger, []))))"
    by auto
  from A B C show ?thesis by blast
qed

section \<open>Calling \<open>createSquad\<close> again\<close>

lemma createSquadLoop_recover:
  assumes reads: "\<And>a c. getAccountInfo io a c w = (Inr (chain a), w)"
      and present: "ownedBySquads (chain (multisigPdaAt lib creator i))"
      and earlier: "\<forall>j<i. chain (multisigPdaAt lib creator j) \<noteq> None
                          \<and> \<not> ownedBySquads (chain (multisigPdaAt lib creator j))"
      and bound: "i < MAX_ATTEMPTS"
  shows "k \<le> i \<Longrightarrow>
         \<exists>evs. createSquadLoop io lib creator member2 threshold k lastError (w, tr)
                 = (Inr \<lparr>squad_signature = ''RECOVERED'',
                         squad_multisigPda = multisigPdaAt lib creator i,
                         squad_vaultPda = vaultPdaAt lib creator i\<rparr>, (w, tr @ evs))
               \<and> filter isSubmission evs = []"
proof (induction "i - k" arbitrary: k tr)
  case 0
  then have k: "k = i" by simp
  have "createSquadAttempt io lib creator member2 threshold i (w, tr)
          = (Returned \<lparr>squad_signature = ''RECOVERED'',
                        squad_multisigPda = multisigPdaAt lib creator i,
                        squad_vaultPda = vaultPdaAt lib creator i\<rparr>,
             (w, tr @ [GetAccountInfo (multisigPdaAt lib creator i) None
                         (Inr (chain (multisigPdaAt lib creator i)))]))"
    using present by (simp add: createSquadAttempt_def conn_getAccountInfo_snapshot [OF reads])
  with bound k show ?case
    by (subst createSquadLoop.simps) simp
next
  case (Suc d)
  then have lt: "k < i" and d: "d = i - Suc k" and le: "Suc k \<le> i" by simp_all
  from earlier lt obtain a where a: "chain (multisigPdaAt lib creator k) = Some a"
    "\<not> ownedBySquads (chain (multisigPdaAt lib creator k))" by auto
  let ?tr = "tr @ [GetAccountInfo (multisigPdaAt lib creator k) None (Inr (Some a))]"
  have at: "createSquadAttempt io lib creator member2 threshold k (w, tr) = (Skipped, (w, ?tr))"
    using a by (simp add: createSquadAttempt_def conn_getAccountInfo_snapshot [OF reads])
  from Suc.hyps(1) [OF d le, of ?tr] obtain evs where
    rec: "createSquadLoop io lib creator member2 threshold (Suc k) lastError (w, ?tr)
            = (Inr \<lparr>squad_signature = ''RECOVERED'',
                    squad_multisigPda = multisigPdaAt lib creator i,
                    squad_vaultPda = vaultPdaAt lib creator i\<rparr>, (w, ?tr @ evs))"
    and quiet: "filter isSubmission evs = []" by blast
  have "k < MAX_ATTEMPTS" using lt bound by simp
  with at rec have "createSquadLoop io lib creator member2 threshold k lastError (w, tr)
            = (Inr \<lparr>squad_signature = ''RECOVERED'',
                    squad_multisigPda = multisigPdaAt lib creator i,
                    squad_vaultPda = vaultPdaAt lib creator i\<rparr>,
               (w, tr @ (GetAccountInfo (multisigPdaAt lib creator k) None (Inr (Some a)) # evs)))"
    by (subst createSquadLoop.simps) simp
  with quiet show ?case
    by (intro exI [of _ "GetAccountInfo (multisigPdaAt lib creator k) None (Inr (Some a)) # evs"]) simp
qed

text \<open>
  C1, as amended. Let a call of \<open>createSquad\<close> have returned the multisig address of
  attempt \<open>i\<close>. A later call with the same owner and second member, in a world whose reads
  show a creator balance of at least 0.01 SOL, that address as an account owned by the
  Squads program, and the address of every earlier attempt as an account not owned by the
  Squads program, returns the same multisig and vault addresses with the signature
  "RECOVERED", submits nothing and leaves the world as it was.
\<close>

theorem createSquad_recovers:
  assumes first: "fst (createSquad io lib creator member2 threshold s0) = Inr r1"
      and index: "i < MAX_ATTEMPTS" "squad_multisigPda r1 = multisigPdaAt lib creator i"
      and funded: "getBalance io (publicKey creator) w = (Inr balance, w)" "10000000 \<le> balance"
      and reads: "\<And>a c. getAccountInfo io a c w = (Inr (chain a), w)"
      and present: "ownedBySquads (chain (multisigPdaAt lib creator i))"
      and earlier: "\<forall>j<i. chain (multisigPdaAt lib creator j) \<noteq> None
                          \<and> \<not> ownedBySquads (chain (multisigPdaAt lib creator j))"
  shows "fst (createSquad io lib creator member2 threshold (w, []))
           = Inr \<lparr>squad_signature = ''RECOVERED'',
                  squad_multisigPda = squad_multisigPda r1,
                  squad_vaultPda = squad_vaultPda r1\<rparr>
       \<and> filter isSubmission (snd (snd (createSquad io lib creator member2 threshold (w, [])))) = []
       \<and> fst (snd (createSquad io lib creator member2 threshold (w, []))) = w"
proof -
  from first obtain s' where "createSquad io lib creator member2 threshold s0 = (Inr r1, s')"
    by (cases "createSquad io lib creator member2 threshold s0") simp
  from createSquad_evidence [OF this] obtain k where
    k: "squad_multisigPda r1 = multisigPdaAt lib creator k" "squad_vaultPda r1 = vaultPdaAt lib creator k"
    by blast
  have vault: "squad_vaultPda r1 = vaultPdaAt lib creator i"
    using k index(2) by (simp add: vaultPdaAt_def)
  let ?tr = "[GetBalance (publicKey creator) (Inr balance)]"
  have start: "createSquad io lib creator member2 threshold (w, [])
                 = createSquadLoop io lib creator member2 threshold 0 None (w, ?tr)"
    using funded by (simp add: createSquad_def proc_defs conn_getBalance_def await_def)
  from createSquadLoop_recover [OF reads present earlier index(1), of 0 member2 threshold None ?tr]
  obtain evs where "createSquadLoop io lib creator member2 threshold 0 None (w, ?tr)
                 = (Inr \<lparr>squad_signature = ''RECOVERED'',
                         squad_multisigPda = multisigPdaAt lib creator i,
                         squad_vaultPda = vaultPdaAt lib creator i\<rparr>, (w, ?tr @ evs))"
    "filter isSubmission evs = []" by auto
  with start vault index(2) show ?thesis by simp
qed

lemmas squad_ledger_simps = squad_run_simps alice_pda_simps networkDown_def squadsAccount_def
  zombieAccount_def SystemProgram_programId_def SQUADS_PROGRAM_ID_def

lemma flaky_first:
  "fst (createSquad ledgerIo ledgerLib alice bob 1 (flakyLedger, []))
     = Inr \<lparr>squad_signature = ''sig'',
            squad_multisigPda = multisigPdaAt ledgerLib alice 1,
            squad_vaultPda = vaultPdaAt ledgerLib alice 1\<rparr>"
  by (simp add: squad_ledger_simps flakyLedger_def)

lemma flaky_after:
  "fst (snd (createSquad ledgerIo ledgerLib alice bob 1 (flakyLedger, []))) = afterFlaky"
  by (simp add: squad_ledger_simps flakyLedger_def afterFlaky_def)

lemma flaky_second:
  "fst (createSquad ledgerIo ledgerLib alice bob 1 (afterFlaky, []))
     = Inr \<lparr>squad_signature = ''sig'',
            squad_multisigPda = multisigPdaAt ledgerLib alice 0,
            squad_vaultPda = vaultPdaAt ledgerLib alice 0\<rparr>"
  by (simp add: squad_ledger_simps afterFlaky_def)

lemma alice_pda_distinct: "multisigPdaAt ledgerLib alice 0 \<noteq> multisigPdaAt ledgerLib alice 1"
  by (simp add: alice_pda_simps)

text \<open>
  The claim as stated fails when the first call rolled past a free slot: on a ledger
  whose node refuses the first submission only, the first call creates the multisig of
  attempt 1; the second call, with that account in place and owned by the Squads program,
  creates the multisig of attempt 0 and returns its address, with the signature of the
  creation.
\<close>

theorem createSquad_not_idempotent_counterexample:
  "fst (createSquad ledgerIo ledgerLib alice bob 1 (flakyLedger, []))
     = Inr \<lparr>squad_signature = ''sig'',
            squad_multisigPda = multisigPdaAt ledgerLib alice 1,
            squad_vaultPda = vaultPdaAt ledgerLib alice 1\<rparr>
   \<and> fst (snd (createSquad ledgerIo ledgerLib alice bob 1 (flakyLedger, []))) = afterFlaky
   \<and> ownedBySquads (map_of (accounts afterFlaky) (multisigPdaAt ledgerLib alice 1))
   \<and> fst (createSquad ledgerIo ledgerLib alice bob 1 (afterFlaky, []))
     = Inr \<lparr>squad_signature = ''sig'',
            squad_multisigPda = multisigPdaAt ledgerLib alice 0,
            squad_vaultPda = vaultPdaAt ledgerLib alice 0\<rparr>
   \<and> multisigPdaAt ledgerLib alice 0 \<noteq> multisigPdaAt ledgerLib alice 1"
proof -
  have "ownedBySquads (map_of (accounts afterFlaky) (multisigPdaAt ledgerLib alice 1))"
    by (simp add: afterFlaky_def fundedLedger_def emptyLedger_def ownedBySquads_def squadsAccount_def)
  with flaky_first flaky_after flaky_second alice_pda_distinct show ?thesis by simp
qed

lemma zombie_first:
  "fst (createSquad ledgerIo ledgerLib alice bob 1 (zombieLedger, []))
     = Inr \<lparr>squad_signature = ''sig'',
            squad_multisigPda = multisigPdaAt ledgerLib alice 1,
            squad_vaultPda = vaultPdaAt ledgerLib alice 1\<rparr>"
  by (simp add: squad_ledger_simps zombieLedger_def)

lemma zombie_after:
  "fst (snd (createSquad ledgerIo ledgerLib alice bob 1 (zombieLedger, []))) = afterZombie"
  by (simp add: squad_ledger_simps zombieLedger_def afterZombie_def)

theorem createSquad_recovers_witness:
  "fst (createSquad ledgerIo ledgerLib alice bob 1 (zombieLedger, []))
     = Inr \<lparr>squad_signature = ''sig'',
            squad_multisigPda = multisigPdaAt ledgerLib alice 1,
            squad_vaultPda = vaultPdaAt ledgerLib alice 1\<rparr>
   \<and> fst (snd (createSquad ledgerIo ledgerLib alice bob 1 (zombieLedger, []))) = afterZombie
   \<and> fst (createSquad ledgerIo ledgerLib alice bob 1 (afterZombie, []))
     = Inr \<lparr>squad_signature = ''RECOVERED'',
            squad_multisigPda = multisigPdaAt ledgerLib alice 1,
            squad_vaultPda = vaultPdaAt ledgerLib alice 1\<rparr>
   \<and> filter isSubmission (snd (snd (createSquad ledgerIo ledgerLib alice bob 1 (afterZombie, [])))) = []
   \<and> fst (snd (createSquad ledgerIo ledgerLib alice bob 1 (afterZombie, []))) = afterZombie"
proof -
  let ?r1 = "\<lparr>squad_signature = ''sig'',
              squad_multisigPda = multisigPdaAt ledgerLib alice 1,
              squad_vaultPda = vaultPdaAt ledgerLib alice 1\<rparr>"
  have index: "1 < MAX_ATTEMPTS" "squad_multisigPda ?r1 = multisigPdaAt ledgerLib alice 1"
    by (simp_all add: MAX_ATTEMPTS_def)
  have funded: "getBalance ledgerIo (publicKey alice) afterZombie = (Inr 50000000, afterZombie)"
    "(10000000::nat) \<le> 50000000"
    by (simp_all add: ledgerIo_simps afterZombie_def fundedLedger_def emptyLedger_def)
  have reads: "\<And>a c. getAccountInfo ledgerIo a c afterZombie
                 = (Inr (map_of (accounts afterZombie) a), afterZombie)"
    by (simp add: ledgerIo_simps)
  have present: "ownedBySquads (map_of (accounts afterZombie) (multisigPdaAt ledgerLib alice 1))"
    by (simp add: afterZombie_def fundedLedger_def emptyLedger_def ownedBySquads_def squadsAccount_def)
  have zero: "map_of (accounts afterZombie) (multisigPdaAt ledgerLib alice 0) = Some zombieAccount"
    using alice_pda_distinct by (simp add: afterZombie_def fundedLedger_def emptyLedger_def)
  have earlier: "\<forall>j<1. map_of (accounts afterZombie) (multisigPdaAt ledgerLib alice j) \<noteq> None
                   \<and> \<not> ownedBySquads (map_of (accounts afterZombie) (multisigPdaAt ledgerLib alice j))"
    using zero
    by (simp add: ownedBySquads_def zombieAccount_def SystemProgram_programId_def SQUADS_PROGRAM_ID_def)
  from createSquad_recovers [OF zombie_first index funded reads present earlier]
  show ?thesis using zombie_first zombie_after by simp
qed

section \<open>The low-latency path decodes the slippage error\<close>

lemma poll_decodes:
  assumes "dateNow io (fst s) - startTime < timeout"
    and "getSignatureStatus io signature (fst s) = (Inr (Some st), w')"
    and "slippageReported st"
  shows "pollSignatureStatus io signature startTime timeout s
           = Some (swapFailure (Some signature) ''Price moved too much - slippage exceeded''
                     ''SLIPPAGE_EXCEEDED'',
                   (w', snd s @ [GetSignatureStatus signature (Inr (Some st))]))"
  using assms
  by (subst pollSignatureStatus.simps)
     (auto simp: conn_getSignatureStatus_def await_def slippageReported_def split: option.splits)

lemma poll_partial:
  assumes "pollSignatureStatus io signature startTime timeout s = Some y"
  shows "\<exists>evs. snd (snd y) = snd s @ evs
           \<and> (\<forall>sg st. GetSignatureStatus sg (Inr (Some st)) \<in> set evs \<longrightarrow> slippageReported st \<longrightarrow>
                  fst y = swapFailure (Some sg) ''Price moved too much - slippage exceeded''
                            ''SLIPPAGE_EXCEEDED'')"
  using assms
proof (induction io signature startTime timeout s y
        rule: pollSignatureStatus.raw_induct [rotated 1, consumes 1, case_names 1])
  case (1 poll io signature startTime timeout s y)
  show ?case
  proof (cases "dateNow io (fst s) - startTime < timeout")
    case False
    with 1(2) have "y = (swapSuccess signature, s)" by simp
    then show ?thesis by simp
  next
    case True
    obtain r s1 where step: "conn_getSignatureStatus io signature s = (r, s1)"
      by (cases "conn_getSignatureStatus io signature s")
    then obtain r0 where r0: "r = map_sum External id r0"
      "snd s1 = snd s @ [GetSignatureStatus signature r0]"
      by (rule conn_getSignatureStatusE)
    have again: "poll io signature startTime timeout (sleep io 200 s1) = Some y \<Longrightarrow>
                 (\<forall>st. r0 = Inr (Some st) \<longrightarrow> \<not> slippageReported st) \<Longrightarrow> ?thesis"
    proof -
      assume a: "poll io signature startTime timeout (sleep io 200 s1) = Some y"
        and b: "\<forall>st. r0 = Inr (Some st) \<longrightarrow> \<not> slippageReported st"
      from 1(1) [OF a] obtain evs where evs: "snd (snd y) = snd (sleep io 200 s1) @ evs"
        "\<forall>sg st. GetSignatureStatus sg (Inr (Some st)) \<in> set evs \<longrightarrow> slippageReported st \<longrightarrow>
                  fst y = swapFailure (Some sg) ''Price moved too much - slippage exceeded''
                            ''SLIPPAGE_EXCEEDED''"
        by blast
      have "snd (snd y) = snd s @ (GetSignatureStatus signature r0 # SetTimeout 200 # evs)"
        using evs(1) r0(2) by (simp add: sleep_def)
      moreover have "\<forall>sg st. GetSignatureStatus sg (Inr (Some st))
                       \<in> set (GetSignatureStatus signature r0 # SetTimeout 200 # evs)
                     \<longrightarrow> slippageReported st \<longrightarrow>
                  fst y = swapFailure (Some sg) ''Price moved too much - slippage exceeded''
                            ''SLIPPAGE_EXCEEDED''"
        using evs(2) b by auto
      ultimately show ?thesis by blast
    qed
    show ?thesis
    proof (cases r)
      case (Inl e)
      with True step 1(2) r0 show ?thesis by (intro again) auto
    next
      case (Inr v)
      show ?thesis
      proof (cases v)
        case None
        with Inr True step 1(2) r0 show ?thesis by (intro again) auto
      next
        case (Some st)
        show ?thesis
        proof (cases "confirmationStatus st = Some ''confirmed'' \<or> confirmationStatus st = Some ''finalized''")
          case False
          with Some Inr True step 1(2) r0 show ?thesis
            by (intro again) (auto simp: slippageReported_def)
        next
          case conf: True
          show ?thesis
          proof (cases "slippageReported st")
            case True
            with conf Some Inr \<open>dateNow io (fst s) - startTime < timeout\<close> step 1(2)
            have "y = (swapFailure (Some signature) ''Price moved too much - slippage exceeded''
                         ''SLIPPAGE_EXCEEDED'', s1)"
              by (auto simp: slippageReported_def split: option.splits)
            with r0 show ?thesis by auto
          next
            case False
            with conf Some Inr \<open>dateNow io (fst s) - startTime < timeout\<close> step 1(2)
            have "snd y = s1"
              by (auto simp: slippageReported_def split: option.splits if_splits)
            with r0 Some Inr False show ?thesis by auto
          qed
        qed
      qed
    qed
  qed
qed


lemma emits_sendToJito:
  assumes "\<And>url body r. Fetch url body r \<in> E"
  shows "emits E (sendToJito io tx endpoints)"
proof (induction endpoints)
  case Nil
  show ?case by (rule emitsI) simp
next
  case (Cons endpoint endpoints)
  show ?case
  proof (rule emitsI)
    fix s
    obtain r s1 where step: "conn_fetch io endpoint tx s = (r, s1)"
      by (cases "conn_fetch io endpoint tx s")
    then obtain r0 where s1: "snd s1 = snd s @ [Fetch endpoint tx r0]"
      by (rule conn_fetchE)
    from emitsD [OF Cons, of s1] obtain evs where
      evs: "snd (snd (sendToJito io tx endpoints s1)) = snd s1 @ evs" "set evs \<subseteq> E" by blast
    from step s1 evs assms
    show "\<exists>evs. snd (snd (sendToJito io tx (endpoint # endpoints) s)) = snd s @ evs \<and> set evs \<subseteq> E"
      by (auto split: sum.splits)
  qed
qed

lemma emits_jitoSubmit:
  assumes "\<And>url body r. Fetch url body r \<in> E" "\<And>tx sp r. SendRawTransaction tx sp r \<in> E"
  shows "emits E (jitoSubmit io lib swapTx signer)"
proof (rule emitsI)
  fix s
  have "\<And>tx. emits E (sendToJito io tx JITO_TX_ENDPOINTS)"
    by (rule emits_sendToJito) (rule assms)
  from emitsD [OF this, of _ s]
  have j: "\<And>tx. \<exists>evs. snd (snd (sendToJito io tx JITO_TX_ENDPOINTS s)) = snd s @ evs \<and> set evs \<subseteq> E" .
  show "\<exists>evs. snd (snd (jitoSubmit io lib swapTx signer s)) = snd s @ evs \<and> set evs \<subseteq> E"
  proof (cases "deserialize lib (swap_transaction swapTx)")
    case (Inl e)
    then show ?thesis by (simp add: jitoSubmit_def proc_defs)
  next
    case a: (Inr transaction)
    show ?thesis
    proof (cases "sign lib transaction signer")
      case (Inl e)
      with a show ?thesis by (simp add: jitoSubmit_def proc_defs)
    next
      case b: (Inr signature)
      obtain sent s1 where st: "sendToJito io transaction JITO_TX_ENDPOINTS s = (sent, s1)"
        by (cases "sendToJito io transaction JITO_TX_ENDPOINTS s")
      with j [of transaction] obtain evs where evs: "snd s1 = snd s @ evs" "set evs \<subseteq> E" by auto
      from a b st evs assms(2) show ?thesis
        by (auto simp: jitoSubmit_def proc_defs split: prod.splits sum.splits
            elim!: conn_sendRawTransactionE)
    qed
  qed
qed

lemma emits_executeSwap:
  assumes "\<And>tx sp r. SendTransaction tx sp r \<in> E" "\<And>ms sig r. ConfirmTransactionWithin ms sig r \<in> E"
  shows "emits E (executeSwap io lib swapTx signer)"
proof (rule emitsI)
  fix s
  show "\<exists>evs. snd (snd (executeSwap io lib swapTx signer s)) = snd s @ evs \<and> set evs \<subseteq> E"
    using assms
    by (auto simp: executeSwap_def raceConfirmation_def conn_confirmTransactionWithin_def proc_defs
        split: prod.splits sum.splits option.splits elim!: conn_sendTransactionE)
qed

text \<open>
  C9. Slippage decode on the low-latency path. Whenever a poll of \<open>executeSwapJito\<close>,
  made within its wall-clock budget, reads a status that is confirmed or finalized and
  whose error, as \<open>JSON.stringify\<close> renders it, contains \<open>6024\<close> or \<open>1788\<close>, the
  loop returns at once the result with \<open>success = false\<close>, the tracked signature, the
  message \<open>Price moved too much - slippage exceeded\<close> and the code \<open>SLIPPAGE_EXCEEDED\<close>
  (first part: any iteration of the loop; second part: the first poll after a
  submission). Conversely no run of \<open>executeSwapJito\<close> whose trace holds such a status
  returns anything else: it neither throws nor reports the raw program error (third
  part).
\<close>

theorem slippage_decoded:
  "(\<forall>s signature startTime timeout st w'.
      dateNow (io :: 'w io) (fst s) - startTime < timeout
      \<and> getSignatureStatus io signature (fst s) = (Inr (Some st), w')
      \<and> slippageReported st
      \<longrightarrow> pollSignatureStatus io signature startTime timeout s
            = Some (\<lparr>success = False, swap_signature = Some signature,
                      swap_error = Some ''Price moved too much - slippage exceeded'',
                      errorCode = Some ''SLIPPAGE_EXCEEDED''\<rparr>,
                    (w', snd s @ [GetSignatureStatus signature (Inr (Some st))])))
   \<and> (\<forall>signature s1 st w'.
        jitoSubmit io lib swapTx signer (w, []) = (Inr signature, s1)
        \<and> getSignatureStatus io signature (fst s1) = (Inr (Some st), w')
        \<and> slippageReported st
        \<longrightarrow> executeSwapJito io lib swapTx signer tipLamports (w, [])
              = Some (\<lparr>success = False, swap_signature = Some signature,
                        swap_error = Some ''Price moved too much - slippage exceeded'',
                        errorCode = Some ''SLIPPAGE_EXCEEDED''\<rparr>,
                      (w', snd s1 @ [GetSignatureStatus signature (Inr (Some st))])))
   \<and> (\<forall>res s' signature st.
        executeSwapJito io lib swapTx signer tipLamports (w, []) = Some (res, s')
        \<and> GetSignatureStatus signature (Inr (Some st)) \<in> set (snd s')
        \<and> slippageReported st
        \<longrightarrow> res = \<lparr>success = False, swap_signature = Some signature,
                     swap_error = Some ''Price moved too much - slippage exceeded'',
                     errorCode = Some ''SLIPPAGE_EXCEEDED''\<rparr>)"
proof (intro conjI allI impI; elim conjE)
  fix s :: "'w state" and signature startTime timeout st w'
  assume "dateNow io (fst s) - startTime < timeout"
    "getSignatureStatus io signature (fst s) = (Inr (Some st), w')" "slippageReported st"
  from poll_decodes [OF this]
  show "pollSignatureStatus io signature startTime timeout s
            = Some (\<lparr>success = False, swap_signature = Some signature,
                      swap_error = Some ''Price moved too much - slippage exceeded'',
                      errorCode = Some ''SLIPPAGE_EXCEEDED''\<rparr>,
                    (w', snd s @ [GetSignatureStatus signature (Inr (Some st))]))"
    by (simp add: swapFailure_def)
next
  fix signature s1 st w'
  assume sub: "jitoSubmit io lib swapTx signer (w, []) = (Inr signature, s1)"
    and st: "getSignatureStatus io signature (fst s1) = (Inr (Some st), w')" "slippageReported st"
  have "dateNow io (fst s1) - dateNow io (fst s1) < 8000" by simp
  from poll_decodes [OF this st] sub
  show "executeSwapJito io lib swapTx signer tipLamports (w, [])
              = Some (\<lparr>success = False, swap_signature = Some signature,
                        swap_error = Some ''Price moved too much - slippage exceeded'',
                        errorCode = Some ''SLIPPAGE_EXCEEDED''\<rparr>,
                      (w', snd s1 @ [GetSignatureStatus signature (Inr (Some st))]))"
    by (simp add: executeSwapJito_def swapFailure_def)
next
  fix res s' signature st
  assume run: "executeSwapJito io lib swapTx signer tipLamports (w, []) = Some (res, s')"
    and ev: "GetSignatureStatus signature (Inr (Some st)) \<in> set (snd s')"
    and rep: "slippageReported st"
  let ?E = "{ev. \<forall>sg r. ev \<noteq> GetSignatureStatus sg r}"
  obtain r1 s1 where sub: "jitoSubmit io lib swapTx signer (w, []) = (r1, s1)"
    by (cases "jitoSubmit io lib swapTx signer (w, [])")
  have "emits ?E (jitoSubmit io lib swapTx signer)"
    by (rule emits_jitoSubmit) simp_all
  from emitsD [OF this, of "(w, [])"] sub
  obtain evs1 where s1: "snd s1 = evs1" "set evs1 \<subseteq> ?E" by auto
  show "res = \<lparr>success = False, swap_signature = Some signature,
                     swap_error = Some ''Price moved too much - slippage exceeded'',
                     errorCode = Some ''SLIPPAGE_EXCEEDED''\<rparr>"
  proof (cases r1)
    case (Inl e)
    have "emits ?E (executeSwap io lib swapTx signer)"
      by (rule emits_executeSwap) simp_all
    from emitsD [OF this, of s1] obtain evs2 where
      "snd (snd (executeSwap io lib swapTx signer s1)) = snd s1 @ evs2" "set evs2 \<subseteq> ?E" by blast
    with Inl sub run s1 have "set (snd s') \<subseteq> ?E"
      by (auto simp: executeSwapJito_def)
    with ev show ?thesis by blast
  next
    case (Inr sg)
    with sub run have "pollSignatureStatus io sg (dateNow io (fst s1)) 8000 s1 = Some (res, s')"
      by (simp add: executeSwapJito_def)
    from poll_partial [OF this] obtain evs where evs: "snd s' = snd s1 @ evs"
      "\<forall>sg st. GetSignatureStatus sg (Inr (Some st)) \<in> set evs \<longrightarrow> slippageReported st \<longrightarrow>
          res = swapFailure (Some sg) ''Price moved too much - slippage exceeded'' ''SLIPPAGE_EXCEEDED''"
      by auto
    from ev evs(1) s1 have "GetSignatureStatus signature (Inr (Some st)) \<in> set evs" by auto
    with evs(2) rep show ?thesis by (simp add: swapFailure_def)
  qed
qed


lemma slippageStatus_reported: "slippageReported slippageStatus"
  by (simp add: slippageReported_def slippageStatus_def slippageErr_def dq_def)

lemma slippage_submitted:
  "fst (jitoSubmit ledgerIo ledgerLib swapPayload alice (slippageLedger, [])) = Inr ''sig/AQAB''"
  by (simp add: jitoSubmit_def JITO_TX_ENDPOINTS_def proc_defs conn_defs ledgerIo_simps ledgerLib_simps
      ledgerSubmit_def ledgerApply_simps swapPayload_def slippageLedger_def emptyLedger_def)

lemma slippage_world:
  "fst (snd (jitoSubmit ledgerIo ledgerLib swapPayload alice (slippageLedger, []))) = slippageLedger"
  by (simp add: jitoSubmit_def JITO_TX_ENDPOINTS_def proc_defs conn_defs ledgerIo_simps ledgerLib_simps
      ledgerSubmit_def ledgerApply_simps swapPayload_def slippageLedger_def emptyLedger_def)

theorem slippage_decoded_witness:
  "executeSwapJito ledgerIo ledgerLib swapPayload alice 1000000 (slippageLedger, [])
     = Some (\<lparr>success = False, swap_signature = Some ''sig/AQAB'',
               swap_error = Some ''Price moved too much - slippage exceeded'',
               errorCode = Some ''SLIPPAGE_EXCEEDED''\<rparr>,
             (emptyLedger,
              snd (snd (jitoSubmit ledgerIo ledgerLib swapPayload alice (slippageLedger, [])))
              @ [GetSignatureStatus ''sig/AQAB'' (Inr (Some slippageStatus))]))"
proof -
  let ?s1 = "snd (jitoSubmit ledgerIo ledgerLib swapPayload alice (slippageLedger, []))"
  have sub: "jitoSubmit ledgerIo ledgerLib swapPayload alice (slippageLedger, []) = (Inr ''sig/AQAB'', ?s1)"
    by (rule pair_fst_snd [OF slippage_submitted])
  have status: "getSignatureStatus ledgerIo ''sig/AQAB'' (fst ?s1) = (Inr (Some slippageStatus), emptyLedger)"
    unfolding slippage_world
    by (simp add: ledgerIo_simps slippageLedger_def emptyLedger_def)
  from slippage_decoded [of ledgerIo ledgerLib swapPayload alice slippageLedger 1000000]
  have "\<forall>signature s1 st w'.
        jitoSubmit ledgerIo ledgerLib swapPayload alice (slippageLedger, []) = (Inr signature, s1)
        \<and> getSignatureStatus ledgerIo signature (fst s1) = (Inr (Some st), w')
        \<and> slippageReported st
        \<longrightarrow> executeSwapJito ledgerIo ledgerLib swapPayload alice 1000000 (slippageLedger, [])
              = Some (\<lparr>success = False, swap_signature = Some signature,
                        swap_error = Some ''Price moved too much - slippage exceeded'',
                        errorCode = Some ''SLIPPAGE_EXCEEDED''\<rparr>,
                      (w', snd s1 @ [GetSignatureStatus signature (Inr (Some st))]))"
    by (elim conjE)
  from this [rule_format, of "''sig/AQAB''" ?s1 slippageStatus emptyLedger]
    sub status slippageStatus_reported
  show ?thesis by blast
qed

end
